theory Spec2Isabelle
  imports Main "HOL-Library.Sublist" "HOL-Library.Log_Nat"
begin

section \<open>JavaScript values used by the services\<close>

text \<open>
  A \<^verbatim>\<open>throw\<close> is a value: either an \<^verbatim>\<open>Error\<close> instance with its message or
  some other thrown value. A computation that may throw returns \<open>thrown + 'a\<close>
  (\<open>Inl\<close> is the exception). Strings are byte lists: the UTF-8 text of the source.
\<close>

datatype thrown = ErrorObj string | NonError

text \<open>Row ids are opaque keys that the database issues; they are natural numbers
  here. Times are milliseconds or seconds since the epoch.\<close>

type_synonym ident = nat

type_synonym time = int

text \<open>
  A JavaScript number is a double. An integer of magnitude at most \<open>2 ^ 53\<close> is one
  exactly; a larger integer is rounded to the nearest double, a tie going to the even
  significand (for magnitudes below \<open>2 ^ 1024\<close>). \<^verbatim>\<open>a + b\<close> is the exact sum, rounded.
\<close>

definition double_round :: "int \<Rightarrow> int" where
  "double_round m =
     (if \<bar>m\<bar> \<le> 2 ^ 53 then m
      else
        (let s = 2 ^ nat (bitlen \<bar>m\<bar> - 53);
             q = \<bar>m\<bar> div s;
             r = \<bar>m\<bar> mod s;
             up = (s < 2 * r \<or> (2 * r = s \<and> odd q))
         in sgn m * ((if up then q + 1 else q) * s)))"

definition js_plus :: "int \<Rightarrow> int \<Rightarrow> int" where
  "js_plus a b = double_round (a + b)"

text \<open>Truthiness of a nullable string, \<^verbatim>\<open>a || b\<close> on strings, and interpolation into a
  template literal.\<close>

definition truthy :: "string option \<Rightarrow> bool" where
  "truthy v = (case v of None \<Rightarrow> False | Some s \<Rightarrow> s \<noteq> [])"

definition or_else :: "string option \<Rightarrow> string \<Rightarrow> string" where
  "or_else v d = (case v of None \<Rightarrow> d | Some s \<Rightarrow> if s = [] then d else s)"

definition interpolate :: "string option \<Rightarrow> string \<Rightarrow> string" where
  "interpolate v missing = (case v of None \<Rightarrow> missing | Some s \<Rightarrow> s)"

text \<open>\<^verbatim>\<open>String.prototype.includes\<close> and \<^verbatim>\<open>Array.prototype.some\<close>; \<^verbatim>\<open>xs?.some(p)\<close> on a
  missing array is \<^verbatim>\<open>undefined\<close>, which the \<^verbatim>\<open>if\<close> reads as false.\<close>

definition str_includes :: "string \<Rightarrow> string \<Rightarrow> bool" where
  "str_includes s k = sublist k s"

definition some :: "'a list \<Rightarrow> ('a \<Rightarrow> bool) \<Rightarrow> bool" where
  "some xs p = list_ex p xs"

definition opt_some :: "'a list option \<Rightarrow> ('a \<Rightarrow> bool) \<Rightarrow> bool" where
  "opt_some xs p = (case xs of None \<Rightarrow> False | Some ys \<Rightarrow> some ys p)"

text \<open>\<^verbatim>\<open>String.prototype.toLowerCase\<close> belongs to the runtime; every function that calls
  it takes it as the parameter \<open>lower\<close>. \<open>ascii_lower\<close> is its restriction to ASCII
  letters, used to run the model on concrete texts.\<close>

definition ascii_lower_char :: "char \<Rightarrow> char" where
  "ascii_lower_char c =
     (let n = (of_char c :: nat) in if 65 \<le> n \<and> n \<le> 90 then char_of (n + 32) else c)"

definition ascii_lower :: "string \<Rightarrow> string" where
  "ascii_lower s = map ascii_lower_char s"

section \<open>Data model\<close>

datatype msg_type = Text | Image | Audio | Video | Document

fun type_upper :: "msg_type \<Rightarrow> string" where
  "type_upper Text = ''TEXT''"
| "type_upper Image = ''IMAGE''"
| "type_upper Audio = ''AUDIO''"
| "type_upper Video = ''VIDEO''"
| "type_upper Document = ''DOCUMENT''"

text \<open>\<^verbatim>\<open>WhatsAppMessage\<close>: the payload posted to the provider.\<close>

record whatsapp_message =
  wm_to :: string
  wm_type :: msg_type
  wm_body :: "string option"
  wm_link :: "string option"

text \<open>\<^verbatim>\<open>IncomingWhatsAppMessage\<close>: \<open>in_text\<close> is \<^verbatim>\<open>text?.body\<close>, the four media
  fields are the \<^verbatim>\<open>id\<close> of the media object of that kind when present.\<close>

record incoming =
  in_from :: string
  in_id :: string
  in_timestamp :: string
  in_type :: msg_type
  in_text :: "string option"
  in_image :: "string option"
  in_audio :: "string option"
  in_video :: "string option"
  in_document :: "string option"

record whatsapp_account =
  a_id :: ident
  a_userId :: ident

record contact =
  c_id :: ident
  c_userId :: ident
  c_whatsappAccountId :: ident
  c_name :: string
  c_phone :: string

record conversation =
  v_id :: ident
  v_userId :: ident
  v_contactId :: ident
  v_whatsappAccountId :: ident
  v_unreadCount :: "int option"
  v_lastMessageAt :: "time option"

record message =
  m_id :: ident
  m_conversationId :: ident
  m_contactId :: ident
  m_whatsappMessageId :: "string option"
  m_direction :: string
  m_type :: msg_type
  m_content :: "string option"
  m_mediaUrl :: "string option"
  m_status :: string
  m_isFromBot :: bool

record chatbot =
  b_id :: ident
  b_userId :: ident
  b_name :: string
  b_template :: "string option"
  b_isActive :: bool

record bot_interaction =
  i_id :: ident
  i_chatbotId :: ident
  i_contactId :: ident
  i_messageId :: ident
  i_trigger :: string
  i_response :: string
  i_wasEscalated :: bool
  i_responseTime :: int

record user =
  u_id :: ident
  u_email :: "string option"
  u_password :: "string option"
  u_lastLogin :: "time option"

section \<open>The provider and the world\<close>

text \<open>
  \<^verbatim>\<open>fetch\<close> is the environment: a function from the request to what the call does.
  It throws, or returns a response whose \<^verbatim>\<open>json()\<close> throws or yields the parsed
  body. Of a parsed body the code reads \<^verbatim>\<open>error?.message\<close>,
  \<^verbatim>\<open>messages?.[0]?.id\<close> and \<^verbatim>\<open>url\<close>; the body \<^verbatim>\<open>null\<close> makes each of these reads
  throw a \<^verbatim>\<open>TypeError\<close>.
\<close>

record request =
  rq_method :: string
  rq_url :: string
  rq_authorization :: string
  rq_payload :: "whatsapp_message option"

datatype json =
  JNull
| JObject (j_error_message: "string option") (j_message_id: "string option")
    (j_url: "string option")

record response =
  rs_ok :: bool
  rs_json :: "thrown + json"

type_synonym provider = "request \<Rightarrow> thrown + response"

text \<open>
  The world is the database tables, the counter the database draws fresh row ids
  from, what the database layer throws at an update that assigns nothing (see
  \<open>db_update\<close> below), and the log of the requests made to the provider.
\<close>

record world =
  accounts :: "whatsapp_account list"
  contacts :: "contact list"
  conversations :: "conversation list"
  messages :: "message list"
  chatbots :: "chatbot list"
  interactions :: "bot_interaction list"
  users :: "user list"
  next_id :: ident
  empty_set :: "thrown option"
  requests :: "request list"

section \<open>The database\<close>

text \<open>
  \<^verbatim>\<open>routes.ts\<close> holds the class \<^verbatim>\<open>DatabaseStorage\<close>, whose methods are one query each
  on the handle \<^verbatim>\<open>db\<close>. The module \<^verbatim>\<open>./db\<close> that makes the handle and the table
  declarations of \<^verbatim>\<open>@shared/schema\<close> are not among the sources, and the query builder
  is the library drizzle-orm; the three queries the methods use are the definitions
  of this section. A table is the list of its rows. Database failures other than the
  one named below are outside the model.
\<close>

text \<open>Modelled from the spec: \<^verbatim>\<open>db.select().from(t).where(p)\<close> of the absent module \<^verbatim>\<open>./db\<close>,
  the rows of the table that satisfy the condition. The rows come in the order the
  table holds them; which row of several comes first is the database's choice, and a
  lookup by a key that is unique does not depend on it.\<close>

definition db_select :: "'row list \<Rightarrow> ('row \<Rightarrow> bool) \<Rightarrow> 'row list" where
  "db_select rows p = filter p rows"

text \<open>Modelled from the spec: \<^verbatim>\<open>db.insert(t).values(v).returning()\<close> of the absent module
  \<^verbatim>\<open>./db\<close>. The row is stored under an id the database issues (the id columns of the
  absent schema); the values are a function of that id, which also fills the columns
  the caller leaves out. The result is the one row that \<^verbatim>\<open>returning()\<close> yields, and
  the table.\<close>

definition db_insert :: "ident \<Rightarrow> (ident \<Rightarrow> 'row) \<Rightarrow> 'row list \<Rightarrow> 'row \<times> 'row list" where
  "db_insert fresh vals rows = (vals fresh, rows @ [vals fresh])"

text \<open>Modelled from the spec: \<^verbatim>\<open>db.update(t).set(u).where(p).returning()\<close> of the absent
  module \<^verbatim>\<open>./db\<close>. The update \<open>u\<close> is the list of its column assignments; they are
  applied to the rows that satisfy the condition, and those rows are returned as
  updated. An update that assigns nothing (the object \<^verbatim>\<open>{}\<close>) is the library's case:
  drizzle-orm throws the error ``No values to set'' from \<^verbatim>\<open>set\<close>, and an \<^verbatim>\<open>UPDATE\<close>
  without assignments is not a statement PostgreSQL accepts. What is thrown is the
  parameter \<open>on_empty\<close>; \<open>None\<close> stands for a layer that would let the empty update pass
  and change nothing.\<close>

definition db_update ::
  "thrown option \<Rightarrow> 'row list \<Rightarrow> ('row \<Rightarrow> 'row) list \<Rightarrow> ('row \<Rightarrow> bool) \<Rightarrow>
     thrown + 'row list \<times> 'row list" where
  "db_update on_empty rows updates p =
     (case (updates, on_empty) of
        ([], Some e) \<Rightarrow> Inl e
      | _ \<Rightarrow>
          (let assign = (\<lambda>r. fold (\<lambda>u r'. u r') updates r)
           in Inr (map assign (filter p rows),
                   map (\<lambda>r. if p r then assign r else r) rows)))"

section \<open>Storage\<close>

text \<open>
  The methods of \<^verbatim>\<open>DatabaseStorage\<close> (\<^verbatim>\<open>routes.ts\<close>) that the services call. A getter
  destructures the first row of its query, \<^verbatim>\<open>const [row] = ...; return row || undefined\<close>;
  a create returns the inserted row and advances the id counter; an update returns
  the first updated row, which is \<^verbatim>\<open>undefined\<close> when no row has the id, and throws
  what the query throws.
\<close>

definition first_row :: "'row list \<Rightarrow> 'row option" where
  "first_row rows = (case rows of [] \<Rightarrow> None | r # _ \<Rightarrow> Some r)"

definition getUserByEmail :: "world \<Rightarrow> string \<Rightarrow> user option" where
  "getUserByEmail w email = first_row (db_select (users w) (\<lambda>u. u_email u = Some email))"

definition updateUser ::
  "world \<Rightarrow> ident \<Rightarrow> (user \<Rightarrow> user) list \<Rightarrow> (thrown + user option) \<times> world" where
  "updateUser w i updates =
     (case db_update (empty_set w) (users w) updates (\<lambda>u. u_id u = i) of
        Inl e \<Rightarrow> (Inl e, w)
      | Inr (returned, rows) \<Rightarrow> (Inr (first_row returned), w\<lparr>users := rows\<rparr>))"

definition getWhatsappAccount :: "world \<Rightarrow> ident \<Rightarrow> whatsapp_account option" where
  "getWhatsappAccount w i = first_row (db_select (accounts w) (\<lambda>a. a_id a = i))"

definition getContact :: "world \<Rightarrow> ident \<Rightarrow> contact option" where
  "getContact w i = first_row (db_select (contacts w) (\<lambda>c. c_id c = i))"

definition getContactByPhone :: "world \<Rightarrow> string \<Rightarrow> ident \<Rightarrow> contact option" where
  "getContactByPhone w phone userId =
     first_row (db_select (contacts w) (\<lambda>c. c_phone c = phone \<and> c_userId c = userId))"

definition createContact :: "world \<Rightarrow> (ident \<Rightarrow> contact) \<Rightarrow> contact \<times> world" where
  "createContact w insertContact =
     (let (contact, rows) = db_insert (next_id w) insertContact (contacts w)
      in (contact, w\<lparr>contacts := rows, next_id := Suc (next_id w)\<rparr>))"

definition updateContact ::
  "world \<Rightarrow> ident \<Rightarrow> (contact \<Rightarrow> contact) list \<Rightarrow> (thrown + contact option) \<times> world" where
  "updateContact w i updates =
     (case db_update (empty_set w) (contacts w) updates (\<lambda>c. c_id c = i) of
        Inl e \<Rightarrow> (Inl e, w)
      | Inr (returned, rows) \<Rightarrow> (Inr (first_row returned), w\<lparr>contacts := rows\<rparr>))"

definition getConversation :: "world \<Rightarrow> ident \<Rightarrow> conversation option" where
  "getConversation w i = first_row (db_select (conversations w) (\<lambda>v. v_id v = i))"

definition getConversationByContact :: "world \<Rightarrow> ident \<Rightarrow> conversation option" where
  "getConversationByContact w contactId =
     first_row (db_select (conversations w) (\<lambda>v. v_contactId v = contactId))"

definition createConversation ::
  "world \<Rightarrow> (ident \<Rightarrow> conversation) \<Rightarrow> conversation \<times> world" where
  "createConversation w insertConversation =
     (let (conversation, rows) = db_insert (next_id w) insertConversation (conversations w)
      in (conversation, w\<lparr>conversations := rows, next_id := Suc (next_id w)\<rparr>))"

definition updateConversation ::
  "world \<Rightarrow> ident \<Rightarrow> (conversation \<Rightarrow> conversation) list \<Rightarrow>
     (thrown + conversation option) \<times> world" where
  "updateConversation w i updates =
     (case db_update (empty_set w) (conversations w) updates (\<lambda>v. v_id v = i) of
        Inl e \<Rightarrow> (Inl e, w)
      | Inr (returned, rows) \<Rightarrow> (Inr (first_row returned), w\<lparr>conversations := rows\<rparr>))"

definition createMessage :: "world \<Rightarrow> (ident \<Rightarrow> message) \<Rightarrow> message \<times> world" where
  "createMessage w insertMessage =
     (let (message, rows) = db_insert (next_id w) insertMessage (messages w)
      in (message, w\<lparr>messages := rows, next_id := Suc (next_id w)\<rparr>))"

definition updateMessage ::
  "world \<Rightarrow> ident \<Rightarrow> (message \<Rightarrow> message) list \<Rightarrow> (thrown + message option) \<times> world" where
  "updateMessage w i updates =
     (case db_update (empty_set w) (messages w) updates (\<lambda>m. m_id m = i) of
        Inl e \<Rightarrow> (Inl e, w)
      | Inr (returned, rows) \<Rightarrow> (Inr (first_row returned), w\<lparr>messages := rows\<rparr>))"

definition getChatbot :: "world \<Rightarrow> ident \<Rightarrow> chatbot option" where
  "getChatbot w i = first_row (db_select (chatbots w) (\<lambda>b. b_id b = i))"

definition createBotInteraction ::
  "world \<Rightarrow> (ident \<Rightarrow> bot_interaction) \<Rightarrow> bot_interaction \<times> world" where
  "createBotInteraction w insertInteraction =
     (let (interaction, rows) = db_insert (next_id w) insertInteraction (interactions w)
      in (interaction, w\<lparr>interactions := rows, next_id := Suc (next_id w)\<rparr>))"

text \<open>Modelled from the spec: what the database guarantees of its tables through the
  keys of the absent schema. Row ids are unique within a table and were drawn from
  the counter, and a conversation refers to a contact id that was drawn from the
  counter.\<close>

definition store_ok :: "world \<Rightarrow> bool" where
  "store_ok w \<longleftrightarrow>
     distinct (map c_id (contacts w)) \<and>
     distinct (map v_id (conversations w)) \<and>
     list_all (\<lambda>c. c_id c < next_id w) (contacts w) \<and>
     list_all (\<lambda>v. v_id v < next_id w \<and> v_contactId v < next_id w) (conversations w)"

section \<open>Messaging gateway\<close>

definition WHATSAPP_API_URL :: string where
  "WHATSAPP_API_URL = ''https://graph.facebook.com/v18.0''"

text \<open>\<^verbatim>\<open>VERIFY_TOKEN\<close>: the environment variable when it is set and not empty, the
  literal otherwise.\<close>

definition VERIFY_TOKEN :: "string option \<Rightarrow> string" where
  "VERIFY_TOKEN env_VERIFY_TOKEN = or_else env_VERIFY_TOKEN ''mi_token_de_verificacion''"

record service =
  accessToken :: "string option"
  phoneNumberId :: "string option"

record send_result =
  success :: bool
  messageId :: "string option"
  error :: "string option"

definition validateCredentials :: "service \<Rightarrow> bool" where
  "validateCredentials svc \<longleftrightarrow> truthy (accessToken svc) \<and> truthy (phoneNumberId svc)"

definition null_read :: "string \<Rightarrow> thrown" where
  "null_read prop =
     ErrorObj (''Cannot read properties of null (reading '' @ [CHR 0x27] @ prop @ [CHR 0x27] @ '')'')"

definition undefined_read :: "string \<Rightarrow> thrown" where
  "undefined_read prop =
     ErrorObj (''Cannot read properties of undefined (reading '' @ [CHR 0x27] @ prop @ [CHR 0x27] @ '')'')"

definition send_request :: "service \<Rightarrow> whatsapp_message \<Rightarrow> request" where
  "send_request svc message =
     \<lparr>rq_method = ''POST'',
      rq_url = WHATSAPP_API_URL @ ''/'' @ interpolate (phoneNumberId svc) ''null'' @ ''/messages'',
      rq_authorization = ''Bearer '' @ interpolate (accessToken svc) ''null'',
      rq_payload = Some message\<rparr>"

text \<open>The body of the \<^verbatim>\<open>try\<close> block of \<^verbatim>\<open>sendMessage\<close>.\<close>

definition sendMessage_try :: "provider \<Rightarrow> request \<Rightarrow> thrown + send_result" where
  "sendMessage_try fetch rq =
     (case fetch rq of
        Inl e \<Rightarrow> Inl e
      | Inr response \<Rightarrow>
          (case rs_json response of
             Inl e \<Rightarrow> Inl e
           | Inr data \<Rightarrow>
               if \<not> rs_ok response then
                 (case data of
                    JNull \<Rightarrow> Inl (null_read ''error'')
                  | JObject err_message msg_id url \<Rightarrow>
                      Inr \<lparr>success = False, messageId = None,
                           error = Some (or_else err_message ''Failed to send message'')\<rparr>)
               else
                 (case data of
                    JNull \<Rightarrow> Inl (null_read ''messages'')
                  | JObject err_message msg_id url \<Rightarrow>
                      Inr \<lparr>success = True, messageId = msg_id, error = None\<rparr>)))"

definition sendMessage ::
  "provider \<Rightarrow> service \<Rightarrow> whatsapp_message \<Rightarrow> world \<Rightarrow> (thrown + send_result) \<times> world" where
  "sendMessage fetch svc message w =
     (if \<not> validateCredentials svc then
        (Inr \<lparr>success = False, messageId = None,
              error = Some ''WhatsApp credentials not configured''\<rparr>, w)
      else
        (let rq = send_request svc message;
             w' = w\<lparr>requests := requests w @ [rq]\<rparr>
         in case sendMessage_try fetch rq of
              Inr r \<Rightarrow> (Inr r, w')
            | Inl (ErrorObj msg) \<Rightarrow>
                (Inr \<lparr>success = False, messageId = None, error = Some msg\<rparr>, w')
            | Inl NonError \<Rightarrow>
                (Inr \<lparr>success = False, messageId = None, error = Some ''Unknown error''\<rparr>, w')))"

definition sendTextMessage ::
  "provider \<Rightarrow> service \<Rightarrow> string \<Rightarrow> string \<Rightarrow> world \<Rightarrow> (thrown + send_result) \<times> world" where
  "sendTextMessage fetch svc to text w =
     (if \<not> validateCredentials svc then
        (Inr \<lparr>success = False, messageId = None,
              error = Some ''WhatsApp credentials not configured''\<rparr>, w)
      else
        sendMessage fetch svc
          \<lparr>wm_to = to, wm_type = Text, wm_body = Some text, wm_link = None\<rparr> w)"

definition media_request :: "service \<Rightarrow> string \<Rightarrow> request" where
  "media_request svc mediaId =
     \<lparr>rq_method = ''GET'',
      rq_url = WHATSAPP_API_URL @ ''/'' @ mediaId,
      rq_authorization = ''Bearer '' @ interpolate (accessToken svc) ''null'',
      rq_payload = None\<rparr>"

definition getMediaUrl :: "provider \<Rightarrow> service \<Rightarrow> string \<Rightarrow> world \<Rightarrow> string option \<times> world" where
  "getMediaUrl fetch svc mediaId w =
     (let rq = media_request svc mediaId;
          w' = w\<lparr>requests := requests w @ [rq]\<rparr>
      in case fetch rq of
           Inl e \<Rightarrow> (None, w')
         | Inr response \<Rightarrow>
             (case rs_json response of
                Inl e \<Rightarrow> (None, w')
              | Inr JNull \<Rightarrow> (None, w')
              | Inr (JObject err_message msg_id url) \<Rightarrow>
                  (if truthy url then url else None, w')))"

definition verifyWebhook :: "string option \<Rightarrow> string \<Rightarrow> string \<Rightarrow> string \<Rightarrow> string option" where
  "verifyWebhook env_VERIFY_TOKEN verifyToken mode challenge =
     (if mode = ''subscribe'' \<and> verifyToken = VERIFY_TOKEN env_VERIFY_TOKEN
      then Some challenge else None)"

section \<open>Ingestion pipeline\<close>

text \<open>``Find or create contact'': the first block of \<^verbatim>\<open>processIncomingMessage\<close>. For a
  contact that exists it calls \<^verbatim>\<open>storage.updateContact(contact.id, {})\<close>, an update
  that assigns nothing. An update that returned nothing would make the next read of
  \<^verbatim>\<open>contact.id\<close> throw.\<close>

definition find_or_create_contact ::
  "whatsapp_account \<Rightarrow> ident \<Rightarrow> string \<Rightarrow> world \<Rightarrow> (thrown + contact) \<times> world" where
  "find_or_create_contact whatsappAccount whatsappAccountId phone w =
     (case getContactByPhone w phone (a_userId whatsappAccount) of
        None \<Rightarrow>
          (let (contact, w') =
                 createContact w
                   (\<lambda>i. \<lparr>c_id = i, c_userId = a_userId whatsappAccount,
                         c_whatsappAccountId = whatsappAccountId,
                         c_name = phone, c_phone = phone\<rparr>)
           in (Inr contact, w'))
      | Some contact \<Rightarrow>
          (case updateContact w (c_id contact) [] of
             (Inl e, w') \<Rightarrow> (Inl e, w')
           | (Inr None, w') \<Rightarrow> (Inl (undefined_read ''id''), w')
           | (Inr (Some contact'), w') \<Rightarrow> (Inr contact', w')))"

text \<open>``Find or create conversation'': \<^verbatim>\<open>(conversation.unreadCount || 0) + 1\<close> reads a
  missing counter as 0 and adds as JavaScript numbers add.\<close>

definition unread :: "conversation \<Rightarrow> int" where
  "unread v = (case v_unreadCount v of None \<Rightarrow> 0 | Some n \<Rightarrow> n)"

definition find_or_create_conversation ::
  "whatsapp_account \<Rightarrow> ident \<Rightarrow> contact \<Rightarrow> world \<Rightarrow> (thrown + conversation) \<times> world" where
  "find_or_create_conversation whatsappAccount whatsappAccountId contact w =
     (case getConversationByContact w (c_id contact) of
        None \<Rightarrow>
          (let (conversation, w') =
                 createConversation w
                   (\<lambda>i. \<lparr>v_id = i, v_userId = a_userId whatsappAccount,
                         v_contactId = c_id contact,
                         v_whatsappAccountId = whatsappAccountId,
                         v_unreadCount = Some 1, v_lastMessageAt = None\<rparr>)
           in (Inr conversation, w'))
      | Some conversation \<Rightarrow>
          (case updateConversation w (v_id conversation)
                  [\<lambda>v. v\<lparr>v_unreadCount := Some (js_plus (unread conversation) 1)\<rparr>] of
             (Inl e, w') \<Rightarrow> (Inl e, w')
           | (Inr None, w') \<Rightarrow> (Inl (undefined_read ''id''), w')
           | (Inr (Some conversation'), w') \<Rightarrow> (Inr conversation', w')))"

text \<open>The \<^verbatim>\<open>switch\<close> on the message type: the content and the media URL.\<close>

fun media_id :: "incoming \<Rightarrow> string option" where
  "media_id incomingMessage =
     (case in_type incomingMessage of
        Text \<Rightarrow> None
      | Image \<Rightarrow> in_image incomingMessage
      | Audio \<Rightarrow> in_audio incomingMessage
      | Video \<Rightarrow> in_video incomingMessage
      | Document \<Rightarrow> in_document incomingMessage)"

definition incoming_content ::
  "provider \<Rightarrow> service \<Rightarrow> incoming \<Rightarrow> world \<Rightarrow> (string \<times> string option) \<times> world" where
  "incoming_content fetch svc incomingMessage w =
     (case in_type incomingMessage of
        Text \<Rightarrow> ((or_else (in_text incomingMessage) '''', None), w)
      | _ \<Rightarrow>
          (let (mediaUrl, w') =
                 (case media_id incomingMessage of
                    None \<Rightarrow> (None, w)
                  | Some mediaId \<Rightarrow>
                      if mediaId = [] then (None, w) else getMediaUrl fetch svc mediaId w)
           in ((''['' @ type_upper (in_type incomingMessage) @ '']'', mediaUrl), w')))"

definition processIncomingMessage ::
  "provider \<Rightarrow> service \<Rightarrow> ident \<Rightarrow> incoming \<Rightarrow> world \<Rightarrow>
     (thrown + contact \<times> message \<times> conversation) \<times> world" where
  "processIncomingMessage fetch svc whatsappAccountId incomingMessage w =
     (let phone = in_from incomingMessage in
      case getWhatsappAccount w whatsappAccountId of
        None \<Rightarrow> (Inl (ErrorObj ''WhatsApp account not found''), w)
      | Some whatsappAccount \<Rightarrow>
          (case find_or_create_contact whatsappAccount whatsappAccountId phone w of
             (Inl e, w1) \<Rightarrow> (Inl e, w1)
           | (Inr contact, w1) \<Rightarrow>
               (case find_or_create_conversation whatsappAccount whatsappAccountId contact w1 of
                  (Inl e, w2) \<Rightarrow> (Inl e, w2)
                | (Inr conversation, w2) \<Rightarrow>
                    (let ((content, mediaUrl), w3) =
                           incoming_content fetch svc incomingMessage w2;
                         (message, w4) =
                           createMessage w3
                             (\<lambda>i. \<lparr>m_id = i, m_conversationId = v_id conversation,
                                   m_contactId = c_id contact,
                                   m_whatsappMessageId = Some (in_id incomingMessage),
                                   m_direction = ''inbound'',
                                   m_type = in_type incomingMessage,
                                   m_content = Some content, m_mediaUrl = mediaUrl,
                                   m_status = ''delivered'', m_isFromBot = False\<rparr>)
                     in (Inr (contact, message, conversation), w4)))))"

definition processOutgoingMessage ::
  "provider \<Rightarrow> service \<Rightarrow> time \<Rightarrow> ident \<Rightarrow> ident \<Rightarrow> string \<Rightarrow> msg_type \<Rightarrow> world \<Rightarrow>
     (thrown + message) \<times> world" where
  "processOutgoingMessage fetch svc now conversationId contactId content type w =
     (case getContact w contactId of
        None \<Rightarrow> (Inl (ErrorObj ''Contact not found''), w)
      | Some contact \<Rightarrow>
          (case sendTextMessage fetch svc (c_phone contact) content w of
             (Inl e, w1) \<Rightarrow> (Inl e, w1)
           | (Inr result, w1) \<Rightarrow>
               if \<not> success result then
                 (Inl (ErrorObj (''Failed to send WhatsApp message: '' @
                         interpolate (error result) ''undefined'')), w1)
               else
                 (let (message, w2) =
                        createMessage w1
                          (\<lambda>i. \<lparr>m_id = i, m_conversationId = conversationId,
                                m_contactId = contactId,
                                m_whatsappMessageId = messageId result,
                                m_direction = ''outbound'', m_type = type,
                                m_content = Some content, m_mediaUrl = None,
                                m_status = ''sent'', m_isFromBot = False\<rparr>);
                      (updated, w3) =
                        (case getConversation w2 conversationId of
                           None \<Rightarrow> (Inr None, w2)
                         | Some conversation \<Rightarrow>
                             updateConversation w2 conversationId
                               [\<lambda>v. v\<lparr>v_lastMessageAt := Some now\<rparr>])
                  in case updated of
                       Inl e \<Rightarrow> (Inl e, w3)
                     | Inr _ \<Rightarrow> (Inr message, w3))))"

section \<open>Chatbot responder\<close>

text \<open>
  The string literals of \<^verbatim>\<open>whatsapp.ts\<close>, byte for byte. The file stores each
  accented letter, inverted mark and pictograph of its texts as the byte sequence
  named below; \<open>nl\<close> is the escape \<^verbatim>\<open>\n\<close>.
\<close>

definition nl :: string where
  "nl = [CHR 0x0A]"

definition a_acute :: string where
  "a_acute = [CHR 0xE2, CHR 0x88, CHR 0x9A, CHR 0xC2, CHR 0xB0]"

definition e_acute :: string where
  "e_acute = [CHR 0xE2, CHR 0x88, CHR 0x9A, CHR 0xC2, CHR 0xA9]"

definition i_acute :: string where
  "i_acute = [CHR 0xE2, CHR 0x88, CHR 0x9A, CHR 0xE2, CHR 0x89, CHR 0xA0]"

definition o_acute :: string where
  "o_acute = [CHR 0xE2, CHR 0x88, CHR 0x9A, CHR 0xE2, CHR 0x89, CHR 0xA5]"

definition u_acute :: string where
  "u_acute = [CHR 0xE2, CHR 0x88, CHR 0x9A, CHR 0xE2, CHR 0x88, CHR 0xAB]"

definition inv_excl :: string where
  "inv_excl = [CHR 0xC2, CHR 0xAC, CHR 0xC2, CHR 0xB0]"

definition inv_quest :: string where
  "inv_quest = [CHR 0xC2, CHR 0xAC, CHR 0xC3, CHR 0xB8]"

definition emoji_chart :: string where
  "emoji_chart = [CHR 0xEF, CHR 0xA3, CHR 0xBF, CHR 0xC3, CHR 0xBC, CHR 0xC3, CHR 0xAC, CHR 0xC3, CHR 0xA4]"

definition emoji_rocket :: string where
  "emoji_rocket = [CHR 0xEF, CHR 0xA3, CHR 0xBF, CHR 0xC3, CHR 0xBC, CHR 0xC3, CHR 0xB6, CHR 0xC3, CHR 0x84]"

definition emoji_star :: string where
  "emoji_star = [CHR 0xE2, CHR 0x80, CHR 0x9A, CHR 0xE2, CHR 0x89, CHR 0xA0, CHR 0xC3, CHR 0xAA]"

definition emoji_phone :: string where
  "emoji_phone = [CHR 0xEF, CHR 0xA3, CHR 0xBF, CHR 0xC3, CHR 0xBC, CHR 0xC3, CHR 0xAC, CHR 0xC3, CHR 0xBB]"

definition emoji_laptop :: string where
  "emoji_laptop = [CHR 0xEF, CHR 0xA3, CHR 0xBF, CHR 0xC3, CHR 0xBC, CHR 0xC3, CHR 0xAD, CHR 0xC2, CHR 0xAA]"

definition emoji_mobile :: string where
  "emoji_mobile = [CHR 0xEF, CHR 0xA3, CHR 0xBF, CHR 0xC3, CHR 0xBC, CHR 0xC3, CHR 0xAC, CHR 0xC2, CHR 0xB1]"

definition emoji_siren :: string where
  "emoji_siren = [CHR 0xEF, CHR 0xA3, CHR 0xBF, CHR 0xC3, CHR 0xBC, CHR 0xC3, CHR 0xB6, CHR 0xC2, CHR 0xAE]"

type_synonym template = "(string \<times> string list) list"

definition escalation_notice :: string where
  "escalation_notice =
     nl @ nl @ ''Un agente humano se pondr'' @ a_acute @
     '' en contacto contigo pronto.''"

definition resp_unknown_template :: string where
  "resp_unknown_template =
     ''Gracias por tu mensaje. Un representante se pondr'' @ a_acute @
     '' en contacto contigo pronto.''"

definition resp_pricing :: string where
  "resp_pricing =
     ''Tenemos varios planes disponibles:'' @ nl @ nl @ emoji_chart @ '' Plan B'' @
     a_acute @ ''sico: $299/mes'' @ nl @ emoji_rocket @
     '' Plan Professional: $599/mes'' @ nl @ emoji_star @
     '' Plan Enterprise: $999/mes'' @ nl @ nl @ inv_quest @ ''Te gustar'' @ i_acute @
     ''a m'' @ a_acute @ ''s informaci'' @ o_acute @ ''n sobre alg'' @ u_acute @
     ''n plan espec'' @ i_acute @ ''fico?''"

definition resp_info :: string where
  "resp_info =
     ''Somos una empresa l'' @ i_acute @
     ''der en soluciones empresariales. Ofrecemos servicios de '' @ ''consultor'' @
     i_acute @ ''a, implementaci'' @ o_acute @ ''n y soporte t'' @ e_acute @
     ''cnico. '' @ inv_quest @ ''Sobre qu'' @ e_acute @ '' aspecto te gustar'' @
     i_acute @ ''a saber m'' @ a_acute @ ''s?''"

definition resp_products :: string where
  "resp_products =
     ''Contamos con un amplio cat'' @ a_acute @
     ''logo de productos. Puedes ver todos nuestros productos en '' @
     ''nuestro sitio web o preg'' @ u_acute @ ''ntame por una categor'' @ i_acute @
     ''a espec'' @ i_acute @ ''fica. '' @ inv_quest @ ''Qu'' @ e_acute @
     '' tipo de producto buscas?''"

definition resp_orders :: string where
  "resp_orders =
     ''Para realizar un pedido puedes:'' @ nl @ ''1. Visitar nuestro sitio web'' @ nl @
     ''2. Llamar al 123-456-7890'' @ nl @ ''3. Enviarme los detalles por aqu'' @
     i_acute @ nl @ nl @ inv_quest @ ''C'' @ o_acute @ ''mo prefieres proceder?''"

definition resp_appointments :: string where
  "resp_appointments =
     ''Para agendar una cita puedes:'' @ nl @ emoji_phone @
     '' Llamar al 123-456-7890'' @ nl @ emoji_laptop @ '' Usar nuestro portal en l'' @
     i_acute @ ''nea'' @ nl @ emoji_mobile @ '' Enviarme tus datos aqu'' @ i_acute @
     nl @ nl @ ''Nuestros horarios: Lun-Vie 8:00-18:00, S'' @ a_acute @ ''b 8:00-14:00''"

definition resp_emergency :: string where
  "resp_emergency =
     emoji_siren @ '' EMERGENCIA: Si tienes una emergencia m'' @ e_acute @
     ''dica, llama inmediatamente al 911 o dir'' @ i_acute @ ''gete al hospital m'' @
     a_acute @ ''s cercano.'' @ nl @ nl @ ''Para urgencias m'' @ e_acute @
     ''dicas no cr'' @ i_acute @ ''ticas: 123-456-7890''"

definition resp_default :: string where
  "resp_default =
     ''Gracias por tu mensaje. '' @ inv_quest @ ''Podr'' @ i_acute @ ''as ser m'' @
     a_acute @ ''s espec'' @ i_acute @ ''fico sobre lo que necesitas? Estoy aqu'' @
     i_acute @ '' para ayudarte.''"

definition resp_greeting :: "string \<Rightarrow> string" where
  "resp_greeting name =
     inv_excl @ ''Hola! Soy el asistente virtual de '' @ name @
     ''. '' @ inv_quest @ ''En qu'' @ e_acute @ '' puedo ayudarte hoy?''"

definition corporate :: template where
  "corporate =
    [(''greetings'', [''hola'', ''buenos d'' @ i_acute @ ''as'', ''buenas tardes'', ''buenas noches'']),
     (''pricing'', [''precio'', ''costo'', ''tarifa'', ''cu'' @ a_acute @ ''nto cuesta'']),
     (''info'', [''informaci'' @ o_acute @ ''n'', ''info'', ''detalles'', ''m'' @ a_acute @ ''s info'']),
     (''support'', [''ayuda'', ''soporte'', ''problema'', ''asistencia''])]"

definition ecommerce :: template where
  "ecommerce =
    [(''products'', [''productos'', ''cat'' @ a_acute @ ''logo'', ''qu'' @ e_acute @ '' venden'', ''disponible'']),
     (''orders'', [''pedido'', ''orden'', ''comprar'', ''ordenar'']),
     (''shipping'', [''env'' @ i_acute @ ''o'', ''entrega'', ''delivery'', ''tiempo'']),
     (''returns'', [''devoluci'' @ o_acute @ ''n'', ''cambio'', ''garant'' @ i_acute @ ''a'', ''reembolso''])]"

definition healthcare :: template where
  "healthcare =
    [(''appointments'', [''cita'', ''turno'', ''consulta'', ''agenda'']),
     (''services'', [''servicios'', ''tratamientos'', ''especialidades'']),
     (''hours'', [''horario'', ''horarios'', ''cu'' @ a_acute @ ''ndo'', ''abierto'']),
     (''emergency'', [''emergencia'', ''urgente'', ''urgencia''])]"

definition escalationKeywords :: "string list" where
  "escalationKeywords =
    [''hablar con persona'', ''agente humano'', ''representante'', ''supervisor'',
     ''queja'', ''reclamo'', ''problema serio'', ''no entiendo'', ''mal servicio'']"

definition templates :: "(string \<times> template) list" where
  "templates =
     [(''corporate'', corporate), (''ecommerce'', ecommerce), (''healthcare'', healthcare)]"

text \<open>
  \<^verbatim>\<open>templates[chatbot.template]\<close> is a property read on an object literal: besides
  the three own keys it finds what every object inherits from \<^verbatim>\<open>Object.prototype\<close>.
  Such a value is truthy and has none of the keyword lists, which the empty table
  stands for. A missing template name reads the key \<^verbatim>\<open>"null"\<close>, which is absent.
\<close>

definition object_prototype_keys :: "string list" where
  "object_prototype_keys =
     [''constructor'', ''__proto__'', ''hasOwnProperty'', ''isPrototypeOf'',
      ''propertyIsEnumerable'', ''toLocaleString'', ''toString'', ''valueOf'',
      ''__defineGetter__'', ''__defineSetter__'', ''__lookupGetter__'',
      ''__lookupSetter__'']"

definition templates_lookup :: "string option \<Rightarrow> template option" where
  "templates_lookup key =
     (case key of
        None \<Rightarrow> None
      | Some k \<Rightarrow>
          (case map_of templates k of
             Some t \<Rightarrow> Some t
           | None \<Rightarrow> if k \<in> set object_prototype_keys then Some [] else None))"

text \<open>The \<^verbatim>\<open>switch\<close> of \<^verbatim>\<open>generateResponse\<close>: \<open>None\<close> is reaching a \<^verbatim>\<open>break\<close> or
  matching no case.\<close>

definition template_specific :: "string option \<Rightarrow> template \<Rightarrow> string \<Rightarrow> string option" where
  "template_specific name template content =
     (if name = Some ''corporate'' then
        (if opt_some (map_of template ''pricing'') (\<lambda>word. str_includes content word)
           then Some resp_pricing
         else if opt_some (map_of template ''info'') (\<lambda>word. str_includes content word)
           then Some resp_info
         else None)
      else if name = Some ''ecommerce'' then
        (if opt_some (map_of template ''products'') (\<lambda>word. str_includes content word)
           then Some resp_products
         else if opt_some (map_of template ''orders'') (\<lambda>word. str_includes content word)
           then Some resp_orders
         else None)
      else if name = Some ''healthcare'' then
        (if opt_some (map_of template ''appointments'') (\<lambda>word. str_includes content word)
           then Some resp_appointments
         else if opt_some (map_of template ''emergency'') (\<lambda>word. str_includes content word)
           then Some resp_emergency
         else None)
      else None)"

definition generateResponse ::
  "(string \<Rightarrow> string) \<Rightarrow> chatbot \<Rightarrow> string \<Rightarrow> string option" where
  "generateResponse lower chatbot messageContent =
     (let content = lower messageContent in
      case templates_lookup (b_template chatbot) of
        None \<Rightarrow> Some resp_unknown_template
      | Some template \<Rightarrow>
          if opt_some (map_of template ''greetings'') (\<lambda>greeting. str_includes content greeting)
          then Some (resp_greeting (b_name chatbot))
          else
            (case template_specific (b_template chatbot) template content of
               Some r \<Rightarrow> Some r
             | None \<Rightarrow> Some resp_default))"

definition shouldEscalateToHuman ::
  "(string \<Rightarrow> string) \<Rightarrow> string \<Rightarrow> chatbot \<Rightarrow> bool" where
  "shouldEscalateToHuman lower messageContent chatbot =
     (let content = lower messageContent
      in some escalationKeywords (\<lambda>keyword. str_includes content keyword))"

text \<open>The three clock readings of one bot reply: \<^verbatim>\<open>Date.now()\<close> at the start,
  \<^verbatim>\<open>new Date()\<close> in the outgoing path, \<^verbatim>\<open>Date.now()\<close> at the end.\<close>

record clock =
  t_start :: time
  t_send :: time
  t_end :: time

definition processBotResponse ::
  "provider \<Rightarrow> service \<Rightarrow> (string \<Rightarrow> string) \<Rightarrow> clock \<Rightarrow> ident \<Rightarrow> contact \<Rightarrow> message \<Rightarrow>
     conversation \<Rightarrow> world \<Rightarrow> (thrown + bool) \<times> world" where
  "processBotResponse fetch svc lower clk chatbotId contact message conversation w =
     (case getChatbot w chatbotId of
        None \<Rightarrow> (Inr False, w)
      | Some chatbot \<Rightarrow>
          if \<not> b_isActive chatbot then (Inr False, w)
          else
            (let startTime = t_start clk;
                 generated = generateResponse lower chatbot (or_else (m_content message) '''')
             in if \<not> truthy generated then (Inr False, w)
                else
                  (let shouldEscalate =
                         shouldEscalateToHuman lower (or_else (m_content message) '''') chatbot;
                       response =
                         (if shouldEscalate
                          then interpolate generated '''' @ escalation_notice
                          else interpolate generated '''')
                   in case processOutgoingMessage fetch svc (t_send clk) (v_id conversation)
                             (c_id contact) response Text w of
                        (Inl e, w1) \<Rightarrow> (Inl e, w1)
                      | (Inr botMessage, w1) \<Rightarrow>
                          (case updateMessage w1 (m_id botMessage)
                                  [\<lambda>m. m\<lparr>m_isFromBot := True\<rparr>] of
                             (Inl e, w2) \<Rightarrow> (Inl e, w2)
                           | (Inr _, w2) \<Rightarrow>
                               (let w3 = snd (createBotInteraction w2
                                      (\<lambda>i. \<lparr>i_id = i, i_chatbotId = chatbotId,
                                            i_contactId = c_id contact,
                                            i_messageId = m_id message,
                                            i_trigger = or_else (m_content message) '''',
                                            i_response = response,
                                            i_wasEscalated = shouldEscalate,
                                            i_responseTime = t_end clk - startTime\<rparr>))
                                in (Inr True, w3))))))"

section \<open>Auth\<close>

text \<open>
  \<^verbatim>\<open>bcrypt.compare\<close> and the \<^verbatim>\<open>jsonwebtoken\<close> library are not code of the
  repository: the functions that call them take them as parameters. The comparison
  resolves to a truth value or rejects. A token library signs a payload under a
  secret, for a lifetime in seconds, at the time its own clock shows in seconds;
  verifying at a later time throws or returns the payload.
\<close>

record 'tok jwt =
  jwt_sign :: "ident \<Rightarrow> string \<Rightarrow> int \<Rightarrow> time \<Rightarrow> 'tok"
  jwt_verify :: "'tok \<Rightarrow> string \<Rightarrow> time \<Rightarrow> thrown + ident"

definition JWT_SECRET :: "string option \<Rightarrow> string" where
  "JWT_SECRET env_JWT_SECRET = or_else env_JWT_SECRET ''your-secret-key''"

definition seven_days :: int where
  "seven_days = 7 * 24 * 60 * 60"

definition generateToken :: "'tok jwt \<Rightarrow> string option \<Rightarrow> time \<Rightarrow> ident \<Rightarrow> 'tok" where
  "generateToken lib env_JWT_SECRET now userId =
     jwt_sign lib userId (JWT_SECRET env_JWT_SECRET) seven_days now"

definition verifyToken :: "'tok jwt \<Rightarrow> string option \<Rightarrow> time \<Rightarrow> 'tok \<Rightarrow> ident option" where
  "verifyToken lib env_JWT_SECRET now token =
     (case jwt_verify lib token (JWT_SECRET env_JWT_SECRET) now of
        Inl e \<Rightarrow> None
      | Inr userId \<Rightarrow> Some userId)"

text \<open>\<open>loginDate\<close> is \<^verbatim>\<open>new Date()\<close>, in milliseconds; \<open>signTime\<close> is the clock of the
  token library when it signs, in seconds.\<close>

definition loginWithEmail ::
  "'tok jwt \<Rightarrow> (string \<Rightarrow> string \<Rightarrow> thrown + bool) \<Rightarrow> string option \<Rightarrow> time \<Rightarrow> time \<Rightarrow>
     string \<Rightarrow> string \<Rightarrow> world \<Rightarrow> (thrown + (user \<times> 'tok) option) \<times> world" where
  "loginWithEmail lib verifyPassword env_JWT_SECRET loginDate signTime email password w =
     (case getUserByEmail w email of
        None \<Rightarrow> (Inr None, w)
      | Some user \<Rightarrow>
          if \<not> truthy (u_password user) then (Inr None, w)
          else
            (case verifyPassword password (interpolate (u_password user) '''') of
               Inl e \<Rightarrow> (Inl e, w)
             | Inr isValid \<Rightarrow>
                 if \<not> isValid then (Inr None, w)
                 else
                   (case updateUser w (u_id user) [\<lambda>u. u\<lparr>u_lastLogin := Some loginDate\<rparr>] of
                      (Inl e, w') \<Rightarrow> (Inl e, w')
                    | (Inr _, w') \<Rightarrow>
                        (let token = generateToken lib env_JWT_SECRET signTime (u_id user)
                         in (Inr (Some (user, token)), w')))))"

text \<open>The contract of a token library: a token verifies to its payload under the
  signing secret from the signing time until its lifetime has passed.\<close>

definition jwt_contract :: "'tok jwt \<Rightarrow> bool" where
  "jwt_contract lib \<longleftrightarrow>
     (\<forall>userId secret lifetime t t'.
        t \<le> t' \<and> t' < t + lifetime \<longrightarrow>
        jwt_verify lib (jwt_sign lib userId secret lifetime t) secret t' = Inr userId)"

text \<open>A symbolic library, to run the model: a token is the triple of the payload,
  the secret and the expiry time.\<close>

definition symbolic_jwt :: "(ident \<times> string \<times> time) jwt" where
  "symbolic_jwt =
     \<lparr>jwt_sign = (\<lambda>userId secret lifetime t. (userId, secret, t + lifetime)),
      jwt_verify = (\<lambda>(userId, secret, expiry) secret' t.
         if secret \<noteq> secret' then Inl (ErrorObj ''invalid signature'')
         else if expiry \<le> t then Inl (ErrorObj ''jwt expired'')
         else Inr userId)\<rparr>"

section \<open>Sample data\<close>

text \<open>Concrete values on which the definitions are run.\<close>

definition acme :: chatbot where
  "acme = \<lparr>b_id = 7, b_userId = 1, b_name = ''Acme'', b_template = Some ''corporate'',
            b_isActive = True\<rparr>"

definition sample_service :: service where
  "sample_service = \<lparr>accessToken = Some ''EAAG-token'', phoneNumberId = Some ''106540352242922''\<rparr>"

definition accepting :: provider where
  "accepting = (\<lambda>rq. Inr \<lparr>rs_ok = True, rs_json = Inr (JObject None (Some ''wamid.HBgL'') None)\<rparr>)"

definition rejecting :: provider where
  "rejecting =
     (\<lambda>rq. Inr \<lparr>rs_ok = False,
                rs_json = Inr (JObject (Some ''Recipient phone number not in allowed list'') None None)\<rparr>)"

definition unreachable :: provider where
  "unreachable = (\<lambda>rq. Inl (ErrorObj ''fetch failed''))"

definition hello :: whatsapp_message where
  "hello = \<lparr>wm_to = ''5551234'', wm_type = Text, wm_body = Some ''hola'', wm_link = None\<rparr>"

definition sample_world :: world where
  "sample_world =
     \<lparr>accounts = [\<lparr>a_id = 3, a_userId = 1\<rparr>],
      contacts = [],
      conversations = [],
      messages = [],
      chatbots = [acme],
      interactions = [],
      users = [\<lparr>u_id = 1, u_email = Some ''ana@example.com'', u_password = Some ''bcrypt:secreto'',
                u_lastLogin = None\<rparr>],
      next_id = 10,
      empty_set = Some (ErrorObj ''No values to set''),
      requests = []\<rparr>"

definition sample_bcrypt :: "string \<Rightarrow> string \<Rightarrow> thrown + bool" where
  "sample_bcrypt password hash = Inr (hash = ''bcrypt:'' @ password)"

definition ana_contact :: contact where
  "ana_contact = \<lparr>c_id = 4, c_userId = 1, c_whatsappAccountId = 3, c_name = ''5551234'',
                   c_phone = ''5551234''\<rparr>"

definition ana_conversation :: conversation where
  "ana_conversation = \<lparr>v_id = 5, v_userId = 1, v_contactId = 4, v_whatsappAccountId = 3,
                           v_unreadCount = Some 2, v_lastMessageAt = None\<rparr>"

definition busy_world :: world where
  "busy_world = sample_world\<lparr>contacts := [ana_contact], conversations := [ana_conversation]\<rparr>"

definition msg_hola :: incoming where
  "msg_hola = \<lparr>in_from = ''5551234'', in_id = ''wamid.A1'', in_timestamp = ''1700000000'',
               in_type = Text, in_text = Some ''hola'', in_image = None, in_audio = None,
               in_video = None, in_document = None\<rparr>"

definition msg_precio :: incoming where
  "msg_precio = \<lparr>in_from = ''5551234'', in_id = ''wamid.A2'', in_timestamp = ''1700000060'',
               in_type = Text, in_text = Some ''precio'', in_image = None, in_audio = None,
               in_video = None, in_document = None\<rparr>"

definition msg_queja :: message where
  "msg_queja = \<lparr>m_id = 6, m_conversationId = 5, m_contactId = 4,
                m_whatsappMessageId = Some ''wamid.A3'', m_direction = ''inbound'', m_type = Text,
                m_content = Some ''Tengo una QUEJA sobre el precio'', m_mediaUrl = None,
                m_status = ''delivered'', m_isFromBot = False\<rparr>"

definition sample_clock :: clock where
  "sample_clock = \<lparr>t_start = 1700000000000, t_send = 1700000000250, t_end = 1700000000400\<rparr>"

section \<open>Storage queries as list operations\<close>

lemma first_row_filter: "first_row (filter P xs) = find P xs"
  by (induction xs) (auto simp: first_row_def)

lemma first_row_map_filter: "first_row (map f (filter P xs)) = map_option f (find P xs)"
  by (induction xs) (auto simp: first_row_def)

lemma getWhatsappAccount_find: "getWhatsappAccount w i = find (\<lambda>a. a_id a = i) (accounts w)"
  by (simp add: getWhatsappAccount_def db_select_def first_row_filter)

lemma getContact_find: "getContact w i = find (\<lambda>c. c_id c = i) (contacts w)"
  by (simp add: getContact_def db_select_def first_row_filter)

lemma getContactByPhone_find:
  "getContactByPhone w phone userId =
     find (\<lambda>c. c_phone c = phone \<and> c_userId c = userId) (contacts w)"
  by (simp add: getContactByPhone_def db_select_def first_row_filter)

lemma getConversation_find: "getConversation w i = find (\<lambda>v. v_id v = i) (conversations w)"
  by (simp add: getConversation_def db_select_def first_row_filter)

lemma getConversationByContact_find:
  "getConversationByContact w contactId = find (\<lambda>v. v_contactId v = contactId) (conversations w)"
  by (simp add: getConversationByContact_def db_select_def first_row_filter)

lemma getChatbot_find: "getChatbot w i = find (\<lambda>b. b_id b = i) (chatbots w)"
  by (simp add: getChatbot_def db_select_def first_row_filter)

lemma getUserByEmail_find: "getUserByEmail w email = find (\<lambda>u. u_email u = Some email) (users w)"
  by (simp add: getUserByEmail_def db_select_def first_row_filter)

lemma createContact_append:
  "createContact w row =
     (row (next_id w), w\<lparr>contacts := contacts w @ [row (next_id w)], next_id := Suc (next_id w)\<rparr>)"
  by (simp add: createContact_def db_insert_def)

lemma createConversation_append:
  "createConversation w row =
     (row (next_id w),
      w\<lparr>conversations := conversations w @ [row (next_id w)], next_id := Suc (next_id w)\<rparr>)"
  by (simp add: createConversation_def db_insert_def)

lemma createMessage_append:
  "createMessage w row =
     (row (next_id w), w\<lparr>messages := messages w @ [row (next_id w)], next_id := Suc (next_id w)\<rparr>)"
  by (simp add: createMessage_def db_insert_def)

lemma createBotInteraction_append:
  "createBotInteraction w row =
     (row (next_id w),
      w\<lparr>interactions := interactions w @ [row (next_id w)], next_id := Suc (next_id w)\<rparr>)"
  by (simp add: createBotInteraction_def db_insert_def)

text \<open>An update with one assignment does not throw.\<close>

lemma db_update_one:
  "db_update on_empty rows [f] p =
     Inr (map f (filter p rows), map (\<lambda>r. if p r then f r else r) rows)"
  by (simp add: db_update_def)

lemma updateConversation_one:
  "updateConversation w i [f] =
     (Inr (map_option f (find (\<lambda>v. v_id v = i) (conversations w))),
      w\<lparr>conversations := map (\<lambda>v. if v_id v = i then f v else v) (conversations w)\<rparr>)"
  by (simp add: updateConversation_def db_update_one first_row_map_filter)

lemma updateMessage_one:
  "updateMessage w i [f] =
     (Inr (map_option f (find (\<lambda>m. m_id m = i) (messages w))),
      w\<lparr>messages := map (\<lambda>m. if m_id m = i then f m else m) (messages w)\<rparr>)"
  by (simp add: updateMessage_def db_update_one first_row_map_filter)

lemma updateUser_one:
  "updateUser w i [f] =
     (Inr (map_option f (find (\<lambda>u. u_id u = i) (users w))),
      w\<lparr>users := map (\<lambda>u. if u_id u = i then f u else u) (users w)\<rparr>)"
  by (simp add: updateUser_def db_update_one first_row_map_filter)

lemma map_if_id: "map (\<lambda>r. if p r then id r else r) xs = xs"
  by (induction xs) auto

text \<open>The update that assigns nothing throws what the database layer throws at it;
  a layer that lets it pass returns the row and changes nothing.\<close>

lemma updateContact_empty:
  "updateContact w i [] =
     (case empty_set w of
        Some e \<Rightarrow> (Inl e, w)
      | None \<Rightarrow> (Inr (find (\<lambda>c. c_id c = i) (contacts w)), w))"
  by (simp add: updateContact_def db_update_def first_row_filter map_if_id split: option.splits)

text \<open>Adding 1 is exact on the integers a double holds exactly.\<close>

lemma js_plus_exact: "\<bar>a + b\<bar> \<le> 2 ^ 53 \<Longrightarrow> js_plus a b = a + b"
  by (simp add: js_plus_def double_round_def)

lemma js_plus_stops: "js_plus (2 ^ 53) 1 = 2 ^ 53"
  by code_simp

section \<open>Properties of the chatbot responder\<close>

lemma resp_nonempty:
  "resp_unknown_template \<noteq> []" "resp_greeting name \<noteq> []" "resp_pricing \<noteq> []"
  "resp_info \<noteq> []" "resp_products \<noteq> []" "resp_orders \<noteq> []" "resp_appointments \<noteq> []"
  "resp_emergency \<noteq> []" "resp_default \<noteq> []" "escalation_notice \<noteq> []"
  by (simp_all add: resp_unknown_template_def resp_greeting_def resp_pricing_def resp_info_def
      resp_products_def resp_orders_def resp_appointments_def resp_emergency_def
      resp_default_def escalation_notice_def nl_def inv_excl_def emoji_siren_def)

lemma template_specific_nonempty:
  "template_specific name template content = Some r \<Longrightarrow> r \<noteq> []"
  by (auto simp: template_specific_def resp_nonempty split: if_splits)

lemma generateResponse_Some:
  "\<exists>r. generateResponse lower chatbot messageContent = Some r \<and> r \<noteq> []"
  by (auto simp: generateResponse_def Let_def resp_nonempty
      split: option.splits dest: template_specific_nonempty)

text \<open>
  C5. When the chatbot's template is one of the keys of the keyword table, that
  template has a list of greeting keywords, and the lowercased text contains one of
  them, \<open>generateResponse\<close> returns the greeting, whatever else the text contains: the
  greeting test comes before the per-template tests.
\<close>

theorem greeting_wins:
  assumes "b_template chatbot = Some name"
    and "map_of templates name = Some template"
    and "map_of template ''greetings'' = Some greetings"
    and "greeting \<in> set greetings"
    and "str_includes (lower messageContent) greeting"
  shows "generateResponse lower chatbot messageContent = Some (resp_greeting (b_name chatbot))"
  using assms
  by (auto simp: generateResponse_def Let_def templates_lookup_def opt_some_def some_def
      list_ex_iff)

text \<open>The corporate bot greets a text that holds both ``hola'' and the pricing
  keyword ``precio''.\<close>

theorem greeting_wins_witness:
  "b_template acme = Some ''corporate'' \<and>
   map_of templates ''corporate'' = Some corporate \<and>
   map_of corporate ''greetings'' =
     Some [''hola'', ''buenos d'' @ i_acute @ ''as'', ''buenas tardes'', ''buenas noches''] \<and>
   str_includes (ascii_lower ''Hola, cual es el PRECIO?'') ''hola'' \<and>
   str_includes (ascii_lower ''Hola, cual es el PRECIO?'') ''precio'' \<and>
   generateResponse ascii_lower acme ''Hola, cual es el PRECIO?'' = Some (resp_greeting ''Acme'')"
proof -
  have h1: "b_template acme = Some ''corporate''"
    by (simp add: acme_def)
  have h2: "map_of templates ''corporate'' = Some corporate"
    by (simp add: templates_def)
  have h3: "map_of corporate ''greetings'' =
     Some [''hola'', ''buenos d'' @ i_acute @ ''as'', ''buenas tardes'', ''buenas noches'']"
    by (simp add: corporate_def)
  have h4: "''hola'' \<in> set [''hola'', ''buenos d'' @ i_acute @ ''as'', ''buenas tardes'', ''buenas noches'']"
    by simp
  have h5: "str_includes (ascii_lower ''Hola, cual es el PRECIO?'') ''hola''"
    by code_simp
  have h6: "str_includes (ascii_lower ''Hola, cual es el PRECIO?'') ''precio''"
    by code_simp
  have "b_name acme = ''Acme''"
    by (simp add: acme_def)
  with greeting_wins [where lower = ascii_lower and messageContent = "''Hola, cual es el PRECIO?''",
      OF h1 h2 h3 h4 h5] h1 h2 h3 h5 h6 show ?thesis
    by simp
qed

text \<open>
  C9. \<open>generateResponse\<close> returns a string, and not the empty one, for every chatbot
  record and every text, so the test \<^verbatim>\<open>if (!response)\<close> of \<open>processBotResponse\<close> never
  fires: \<open>processBotResponse\<close> returns \<^verbatim>\<open>false\<close> exactly when the chatbot is missing or
  inactive.
\<close>

theorem bot_always_responds:
  "(\<exists>r. generateResponse lower chatbot messageContent = Some r \<and> r \<noteq> []) \<and>
   (fst (processBotResponse fetch svc lower clk chatbotId contact message conversation w) = Inr False
      \<longleftrightarrow> (case getChatbot w chatbotId of None \<Rightarrow> True | Some b \<Rightarrow> \<not> b_isActive b))"
proof
  show "\<exists>r. generateResponse lower chatbot messageContent = Some r \<and> r \<noteq> []"
    by (rule generateResponse_Some)
next
  show "fst (processBotResponse fetch svc lower clk chatbotId contact message conversation w) = Inr False
      \<longleftrightarrow> (case getChatbot w chatbotId of None \<Rightarrow> True | Some b \<Rightarrow> \<not> b_isActive b)"
  proof (cases "getChatbot w chatbotId")
    case None
    then show ?thesis by (simp add: processBotResponse_def)
  next
    case (Some b)
    obtain r where r: "generateResponse lower b (or_else (m_content message) '''') = Some r" "r \<noteq> []"
      using generateResponse_Some by blast
    show ?thesis
      using Some r
      by (auto simp: processBotResponse_def Let_def truthy_def split: prod.splits sum.splits)
  qed
qed

text \<open>
  C10. The escalation decision is the same for any two chatbots: it is whether the
  lowercased text contains one of the nine fixed keywords.
\<close>

theorem shouldEscalate_independent_of_chatbot:
  "shouldEscalateToHuman lower messageContent chatbot1 =
     shouldEscalateToHuman lower messageContent chatbot2 \<and>
   shouldEscalateToHuman lower messageContent chatbot1 =
     (\<exists>keyword \<in> set escalationKeywords. str_includes (lower messageContent) keyword) \<and>
   length escalationKeywords = 9 \<and> distinct escalationKeywords"
  by (simp add: shouldEscalateToHuman_def Let_def some_def list_ex_iff escalationKeywords_def)

section \<open>Properties of the messaging gateway\<close>

text \<open>
  C2. \<open>verifyWebhook\<close> returns the challenge exactly when the mode is ``subscribe'' and
  the token is the configured secret, and \<^verbatim>\<open>null\<close> in every other case.
\<close>

theorem verifyWebhook_iff:
  "(verifyWebhook env tok mode challenge = Some challenge \<longleftrightarrow>
      mode = ''subscribe'' \<and> tok = VERIFY_TOKEN env) \<and>
   (\<not> (mode = ''subscribe'' \<and> tok = VERIFY_TOKEN env) \<longrightarrow>
      verifyWebhook env tok mode challenge = None)"
  by (simp add: verifyWebhook_def)

theorem verifyWebhook_iff_witness:
  "verifyWebhook None ''mi_token_de_verificacion'' ''subscribe'' ''1158201444'' = Some ''1158201444'' \<and>
   verifyWebhook (Some ''s3cret'') ''mi_token_de_verificacion'' ''subscribe'' ''1158201444'' = None \<and>
   verifyWebhook (Some ''s3cret'') ''s3cret'' ''unsubscribe'' ''1158201444'' = None"
  using verifyWebhook_iff [of None "''mi_token_de_verificacion''" "''subscribe''" "''1158201444''"]
    verifyWebhook_iff [of "Some ''s3cret''" "''mi_token_de_verificacion''" "''subscribe''" "''1158201444''"]
    verifyWebhook_iff [of "Some ''s3cret''" "''s3cret''" "''unsubscribe''" "''1158201444''"]
  by (simp add: VERIFY_TOKEN_def or_else_def)

lemma sendTextMessage_sendMessage:
  "sendTextMessage fetch svc to text w =
     sendMessage fetch svc \<lparr>wm_to = to, wm_type = Text, wm_body = Some text, wm_link = None\<rparr> w"
  by (simp add: sendTextMessage_def sendMessage_def)

text \<open>
  C8. \<open>sendMessage\<close> and \<open>sendTextMessage\<close> never throw. The result reports success
  exactly when the credentials are configured and the provider answered with an ok
  response whose body parsed to a value other than \<^verbatim>\<open>null\<close>; it then carries the
  message id read from the body and no error. Every other path returns
  \<^verbatim>\<open>success: false\<close> with an error text and no message id.
\<close>

theorem send_never_throws:
  "(\<exists>r. fst (sendMessage fetch svc message w) = Inr r \<and>
        (success r \<longleftrightarrow>
           validateCredentials svc \<and>
           (\<exists>response e m u. fetch (send_request svc message) = Inr response \<and> rs_ok response \<and>
              rs_json response = Inr (JObject e m u) \<and> messageId r = m)) \<and>
        (success r \<longrightarrow> error r = None) \<and>
        (\<not> success r \<longrightarrow> messageId r = None \<and> (\<exists>msg. error r = Some msg))) \<and>
   (\<exists>r. fst (sendTextMessage fetch svc to text w) = Inr r \<and>
        (success r \<longleftrightarrow>
           validateCredentials svc \<and>
           (\<exists>response e m u.
              fetch (send_request svc
                       \<lparr>wm_to = to, wm_type = Text, wm_body = Some text, wm_link = None\<rparr>) =
                Inr response \<and> rs_ok response \<and>
              rs_json response = Inr (JObject e m u) \<and> messageId r = m)) \<and>
        (success r \<longrightarrow> error r = None) \<and>
        (\<not> success r \<longrightarrow> messageId r = None \<and> (\<exists>msg. error r = Some msg)))"
proof -
  have A: "\<exists>r. fst (sendMessage fetch svc message w) = Inr r \<and>
        (success r \<longleftrightarrow>
           validateCredentials svc \<and>
           (\<exists>response e m u. fetch (send_request svc message) = Inr response \<and> rs_ok response \<and>
              rs_json response = Inr (JObject e m u) \<and> messageId r = m)) \<and>
        (success r \<longrightarrow> error r = None) \<and>
        (\<not> success r \<longrightarrow> messageId r = None \<and> (\<exists>msg. error r = Some msg))" for message
    by (auto simp: sendMessage_def sendMessage_try_def Let_def null_read_def
        split: sum.splits thrown.splits json.splits)
  from A [of message]
    A [of "\<lparr>wm_to = to, wm_type = Text, wm_body = Some text, wm_link = None\<rparr>"]
  show ?thesis
    unfolding sendTextMessage_sendMessage by (rule conjI)
qed

theorem send_never_throws_witness:
  "fst (sendMessage accepting sample_service hello sample_world) =
     Inr \<lparr>success = True, messageId = Some ''wamid.HBgL'', error = None\<rparr> \<and>
   fst (sendMessage rejecting sample_service hello sample_world) =
     Inr \<lparr>success = False, messageId = None,
          error = Some ''Recipient phone number not in allowed list''\<rparr> \<and>
   fst (sendMessage unreachable sample_service hello sample_world) =
     Inr \<lparr>success = False, messageId = None, error = Some ''fetch failed''\<rparr> \<and>
   fst (sendMessage accepting \<lparr>accessToken = None, phoneNumberId = None\<rparr> hello sample_world) =
     Inr \<lparr>success = False, messageId = None,
          error = Some ''WhatsApp credentials not configured''\<rparr>"
  using send_never_throws [of accepting sample_service hello sample_world]
    send_never_throws [of rejecting sample_service hello sample_world]
    send_never_throws [of unreachable sample_service hello sample_world]
    send_never_throws [of accepting "\<lparr>accessToken = None, phoneNumberId = None\<rparr>" hello sample_world]
  by (simp add: sendMessage_def sendMessage_try_def Let_def validateCredentials_def truthy_def
      sample_service_def accepting_def rejecting_def unreachable_def or_else_def)

section \<open>Properties of the outgoing path\<close>

lemma sendMessage_returns:
  "\<exists>r. sendMessage fetch svc message w =
          (Inr r, if validateCredentials svc
                  then w\<lparr>requests := requests w @ [send_request svc message]\<rparr> else w) \<and>
        (success r \<longrightarrow> validateCredentials svc)"
  by (auto simp: sendMessage_def Let_def split: sum.splits thrown.splits)

lemma sendTextMessage_returns:
  "\<exists>r. sendTextMessage fetch svc to text w =
          (Inr r, if validateCredentials svc
                  then w\<lparr>requests := requests w @
                         [send_request svc \<lparr>wm_to = to, wm_type = Text, wm_body = Some text,
                                            wm_link = None\<rparr>]\<rparr>
                  else w) \<and>
        (success r \<longrightarrow> validateCredentials svc)"
  unfolding sendTextMessage_sendMessage by (rule sendMessage_returns)

lemma processOutgoingMessage_no_contact:
  "getContact w contactId = None \<Longrightarrow>
   processOutgoingMessage fetch svc now conversationId contactId content type w =
     (Inl (ErrorObj ''Contact not found''), w)"
  by (simp add: processOutgoingMessage_def)

lemma processOutgoingMessage_not_sent:
  assumes "getContact w contactId = Some contact"
    and "sendTextMessage fetch svc (c_phone contact) content w = (Inr r, w1)"
    and "\<not> success r"
  shows "processOutgoingMessage fetch svc now conversationId contactId content type w =
     (Inl (ErrorObj (''Failed to send WhatsApp message: '' @ interpolate (error r) ''undefined'')), w1)"
  using assms by (simp add: processOutgoingMessage_def)

lemma processOutgoingMessage_sent:
  assumes "getContact w contactId = Some contact"
    and "sendTextMessage fetch svc (c_phone contact) content w = (Inr r, w1)"
    and "success r"
  shows "\<exists>w'. processOutgoingMessage fetch svc now conversationId contactId content type w =
     (Inr \<lparr>m_id = next_id w1, m_conversationId = conversationId, m_contactId = contactId,
           m_whatsappMessageId = messageId r, m_direction = ''outbound'', m_type = type,
           m_content = Some content, m_mediaUrl = None, m_status = ''sent'',
           m_isFromBot = False\<rparr>, w') \<and>
     w' = w1\<lparr>messages := messages w1 @
              [\<lparr>m_id = next_id w1, m_conversationId = conversationId, m_contactId = contactId,
                m_whatsappMessageId = messageId r, m_direction = ''outbound'', m_type = type,
                m_content = Some content, m_mediaUrl = None, m_status = ''sent'',
                m_isFromBot = False\<rparr>],
             next_id := Suc (next_id w1),
             conversations := map (\<lambda>v. if v_id v = conversationId
                                        then v\<lparr>v_lastMessageAt := Some now\<rparr> else v)
                                (conversations w1)\<rparr>"
proof -
  have "find (\<lambda>v. v_id v = conversationId) vs = None \<Longrightarrow>
        map (\<lambda>v. if v_id v = conversationId then v\<lparr>v_lastMessageAt := Some now\<rparr> else v) vs = vs"
    for vs :: "conversation list"
    by (induction vs) (auto split: if_splits)
  with assms show ?thesis
    by (auto simp: processOutgoingMessage_def createMessage_append Let_def getConversation_find
        updateConversation_one split: option.splits)
qed

lemma processOutgoingMessage_Inr:
  assumes "processOutgoingMessage fetch svc now conversationId contactId content type w = (Inr m, w')"
  shows "\<exists>contact r w1.
     getContact w contactId = Some contact \<and>
     sendTextMessage fetch svc (c_phone contact) content w = (Inr r, w1) \<and> success r \<and>
     w1 = w\<lparr>requests := requests w @
              [send_request svc \<lparr>wm_to = c_phone contact, wm_type = Text, wm_body = Some content,
                                 wm_link = None\<rparr>]\<rparr> \<and>
     m = \<lparr>m_id = next_id w, m_conversationId = conversationId, m_contactId = contactId,
           m_whatsappMessageId = messageId r, m_direction = ''outbound'', m_type = type,
           m_content = Some content, m_mediaUrl = None, m_status = ''sent'',
           m_isFromBot = False\<rparr> \<and>
     w' = w1\<lparr>messages := messages w @ [m], next_id := Suc (next_id w),
             conversations := map (\<lambda>v. if v_id v = conversationId
                                        then v\<lparr>v_lastMessageAt := Some now\<rparr> else v)
                                (conversations w)\<rparr>"
proof (cases "getContact w contactId")
  case None
  with assms show ?thesis
    by (simp add: processOutgoingMessage_no_contact)
next
  case (Some contact)
  obtain r where r: "sendTextMessage fetch svc (c_phone contact) content w =
          (Inr r, if validateCredentials svc
                  then w\<lparr>requests := requests w @
                         [send_request svc \<lparr>wm_to = c_phone contact, wm_type = Text,
                                            wm_body = Some content, wm_link = None\<rparr>]\<rparr>
                  else w)"
    and v: "success r \<longrightarrow> validateCredentials svc"
    using sendTextMessage_returns by blast
  show ?thesis
  proof (cases "success r")
    case False
    with assms Some r show ?thesis
      by (simp add: processOutgoingMessage_not_sent)
  next
    case True
    with v have cred: "validateCredentials svc" by simp
    from processOutgoingMessage_sent [OF Some r True, of now conversationId type] assms cred
    have "m = \<lparr>m_id = next_id w, m_conversationId = conversationId, m_contactId = contactId,
           m_whatsappMessageId = messageId r, m_direction = ''outbound'', m_type = type,
           m_content = Some content, m_mediaUrl = None, m_status = ''sent'',
           m_isFromBot = False\<rparr>"
      and "w' = w\<lparr>requests := requests w @
              [send_request svc \<lparr>wm_to = c_phone contact, wm_type = Text, wm_body = Some content,
                                 wm_link = None\<rparr>],
             messages := messages w @ [m], next_id := Suc (next_id w),
             conversations := map (\<lambda>v. if v_id v = conversationId
                                        then v\<lparr>v_lastMessageAt := Some now\<rparr> else v)
                                (conversations w)\<rparr>"
      by auto
    with Some r True cred show ?thesis
      by simp
  qed
qed

text \<open>
  C1. A call of \<open>processOutgoingMessage\<close> stores an outbound message exactly when the
  gateway reports success. With no such contact it throws and leaves the world as it
  was. With the contact found, \<open>sendTextMessage\<close> returns some result \<open>r\<close>: when \<open>r\<close>
  reports failure the call throws and no table has changed (only the request log
  has grown); when \<open>r\<close> reports success the call returns the one message it
  appended, which is outbound, has status ``sent'' and the provider's message id.
  The update of the conversation that follows assigns \<open>lastMessageAt\<close> and does not
  throw.
\<close>

theorem outgoing_persisted_iff_sent:
  assumes "processOutgoingMessage fetch svc now conversationId contactId content type w = (res, w')"
  shows "(case getContact w contactId of
      None \<Rightarrow> res = Inl (ErrorObj ''Contact not found'') \<and> w' = w
    | Some contact \<Rightarrow>
        (\<exists>r w1. sendTextMessage fetch svc (c_phone contact) content w = (Inr r, w1) \<and>
           ((\<exists>m. res = Inr m) \<longleftrightarrow> success r) \<and>
           (success r \<longrightarrow>
              (\<exists>m. res = Inr m \<and> messages w' = messages w @ [m] \<and>
                 m_direction m = ''outbound'' \<and> m_status m = ''sent'' \<and>
                 m_whatsappMessageId m = messageId r \<and> m_content m = Some content \<and>
                 m_conversationId m = conversationId \<and> m_contactId m = contactId)) \<and>
           (\<not> success r \<longrightarrow>
              (\<exists>e. res = Inl e) \<and> messages w' = messages w \<and>
              w' = w\<lparr>requests := requests w'\<rparr>)))"
proof (cases "getContact w contactId")
  case None
  with assms show ?thesis
    by (simp add: processOutgoingMessage_no_contact)
next
  case (Some contact)
  obtain r where r: "sendTextMessage fetch svc (c_phone contact) content w =
          (Inr r, if validateCredentials svc
                  then w\<lparr>requests := requests w @
                         [send_request svc \<lparr>wm_to = c_phone contact, wm_type = Text,
                                            wm_body = Some content, wm_link = None\<rparr>]\<rparr>
                  else w)"
    using sendTextMessage_returns by blast
  show ?thesis
  proof (cases "success r")
    case False
    from processOutgoingMessage_not_sent [OF Some r False, of now conversationId type] assms
    have "\<exists>e. res = Inl e" and "w' = (if validateCredentials svc
                  then w\<lparr>requests := requests w @
                         [send_request svc \<lparr>wm_to = c_phone contact, wm_type = Text,
                                            wm_body = Some content, wm_link = None\<rparr>]\<rparr>
                  else w)"
      by auto
    with Some r False show ?thesis
      by auto
  next
    case True
    from processOutgoingMessage_sent [OF Some r True, of now conversationId type] assms
    show ?thesis
      using Some r True by auto
  qed
qed

text \<open>A send the provider accepts stores one message; a send it rejects stores
  none.\<close>

theorem outgoing_persisted_iff_sent_witness:
  "(\<exists>m w'. processOutgoingMessage accepting sample_service 1700000000 5 4 ''hola'' Text busy_world =
             (Inr m, w') \<and>
           messages w' = [m] \<and> m_status m = ''sent'' \<and> m_direction m = ''outbound'' \<and>
           m_whatsappMessageId m = Some ''wamid.HBgL'') \<and>
   (\<exists>e w'. processOutgoingMessage rejecting sample_service 1700000000 5 4 ''hola'' Text busy_world =
             (Inl e, w') \<and>
           messages w' = [])"
proof -
  have c: "getContact busy_world 4 = Some ana_contact"
    by (simp add: getContact_find busy_world_def ana_contact_def)
  have p: "c_phone ana_contact = ''5551234''"
    by (simp add: ana_contact_def)
  have m: "messages busy_world = []"
    by (simp add: busy_world_def sample_world_def)
  have cred: "validateCredentials sample_service"
    by (simp add: validateCredentials_def sample_service_def truthy_def)
  obtain res1 w1 where e1:
    "processOutgoingMessage accepting sample_service 1700000000 5 4 ''hola'' Text busy_world = (res1, w1)"
    by fastforce
  have s1: "fst (sendTextMessage accepting sample_service ''5551234'' ''hola'' busy_world) =
     Inr \<lparr>success = True, messageId = Some ''wamid.HBgL'', error = None\<rparr>"
    using cred by (simp add: sendTextMessage_def sendMessage_def sendMessage_try_def Let_def accepting_def)
  from outgoing_persisted_iff_sent [OF e1] c p m s1
  have r1: "\<exists>m. res1 = Inr m \<and> messages w1 = [m] \<and> m_status m = ''sent'' \<and>
     m_direction m = ''outbound'' \<and> m_whatsappMessageId m = Some ''wamid.HBgL''"
    by auto
  obtain res2 w2 where e2:
    "processOutgoingMessage rejecting sample_service 1700000000 5 4 ''hola'' Text busy_world = (res2, w2)"
    by fastforce
  have s2: "fst (sendTextMessage rejecting sample_service ''5551234'' ''hola'' busy_world) =
     Inr \<lparr>success = False, messageId = None,
          error = Some ''Recipient phone number not in allowed list''\<rparr>"
    using cred
    by (simp add: sendTextMessage_def sendMessage_def sendMessage_try_def Let_def rejecting_def
        or_else_def)
  from outgoing_persisted_iff_sent [OF e2] c p m s2
  have r2: "\<exists>e. res2 = Inl e \<and> messages w2 = []"
    by auto
  from e1 r1 e2 r2 show ?thesis
    by auto
qed

section \<open>Properties of the ingestion pipeline\<close>

text \<open>Lookups in a table whose keys are unique.\<close>

lemma find_distinct_key:
  "distinct (map f xs) \<Longrightarrow> x \<in> set xs \<Longrightarrow> find (\<lambda>y. f y = f x) xs = Some x"
  by (induction xs) (auto simp: image_iff)

lemma find_SomeD: "find P xs = Some x \<Longrightarrow> x \<in> set xs \<and> P x"
  by (induction xs) (auto split: if_splits)

lemma find_None_iff_all: "find P xs = None \<longleftrightarrow> (\<forall>x \<in> set xs. \<not> P x)"
  by (induction xs) auto

text \<open>The effect of each block of \<open>processIncomingMessage\<close>.\<close>

lemma contact_stage_new:
  assumes "getContactByPhone w phone (a_userId acc) = None"
  shows "find_or_create_contact acc a phone w =
     (Inr \<lparr>c_id = next_id w, c_userId = a_userId acc, c_whatsappAccountId = a,
           c_name = phone, c_phone = phone\<rparr>,
      w\<lparr>contacts := contacts w @
           [\<lparr>c_id = next_id w, c_userId = a_userId acc, c_whatsappAccountId = a,
             c_name = phone, c_phone = phone\<rparr>],
        next_id := Suc (next_id w)\<rparr>)"
  using assms by (simp add: find_or_create_contact_def createContact_append)

text \<open>For a contact that exists the block issues the update that assigns nothing:
  it throws what the database layer throws at it.\<close>

lemma contact_stage_old_throws:
  assumes "getContactByPhone w phone (a_userId acc) = Some c"
    and "empty_set w = Some e"
  shows "find_or_create_contact acc a phone w = (Inl e, w)"
  using assms by (simp add: find_or_create_contact_def updateContact_empty)

lemma contact_stage_old_passes:
  assumes "getContactByPhone w phone (a_userId acc) = Some c"
    and "empty_set w = None"
    and "distinct (map c_id (contacts w))"
  shows "find_or_create_contact acc a phone w = (Inr c, w)"
proof -
  from assms(1) have "c \<in> set (contacts w)"
    by (auto simp: getContactByPhone_find dest: find_SomeD)
  with assms(3) have "find (\<lambda>y. c_id y = c_id c) (contacts w) = Some c"
    by (rule find_distinct_key)
  with assms(1,2) show ?thesis
    by (simp add: find_or_create_contact_def updateContact_empty)
qed

lemma conversation_stage_new:
  assumes "getConversationByContact w (c_id c) = None"
  shows "find_or_create_conversation acc a c w =
     (Inr \<lparr>v_id = next_id w, v_userId = a_userId acc, v_contactId = c_id c,
           v_whatsappAccountId = a, v_unreadCount = Some 1, v_lastMessageAt = None\<rparr>,
      w\<lparr>conversations := conversations w @
           [\<lparr>v_id = next_id w, v_userId = a_userId acc, v_contactId = c_id c,
             v_whatsappAccountId = a, v_unreadCount = Some 1, v_lastMessageAt = None\<rparr>],
        next_id := Suc (next_id w)\<rparr>)"
  using assms by (simp add: find_or_create_conversation_def createConversation_append)

lemma conversation_stage_old:
  assumes "getConversationByContact w (c_id c) = Some v"
    and "distinct (map v_id (conversations w))"
  shows "find_or_create_conversation acc a c w =
     (Inr (v\<lparr>v_unreadCount := Some (js_plus (unread v) 1)\<rparr>),
      w\<lparr>conversations :=
           map (\<lambda>x. if v_id x = v_id v then x\<lparr>v_unreadCount := Some (js_plus (unread v) 1)\<rparr>
                    else x)
             (conversations w)\<rparr>)"
proof -
  from assms(1) have "v \<in> set (conversations w)"
    by (auto simp: getConversationByContact_find dest: find_SomeD)
  with assms(2) have "find (\<lambda>y. v_id y = v_id v) (conversations w) = Some v"
    by (rule find_distinct_key)
  with assms(1) show ?thesis
    by (simp add: find_or_create_conversation_def updateConversation_one)
qed

lemma content_stage:
  "\<exists>x rqs. incoming_content fetch svc msg w = (x, w\<lparr>requests := rqs\<rparr>)"
proof -
  have g: "\<exists>u. getMediaUrl fetch svc i w =
      (u, w\<lparr>requests := requests w @ [media_request svc i]\<rparr>)" for i
    by (auto simp: getMediaUrl_def Let_def split: sum.splits json.splits)
  have same: "w = w\<lparr>requests := requests w\<rparr>"
    by simp
  show ?thesis
  proof (cases "in_type msg = Text \<or> media_id msg = None \<or> media_id msg = Some []")
    case True
    then have "\<exists>x. incoming_content fetch svc msg w = (x, w)"
      by (auto simp: incoming_content_def split: msg_type.splits option.splits)
    with same show ?thesis by metis
  next
    case False
    then obtain i where i: "media_id msg = Some i" "i \<noteq> []" "in_type msg \<noteq> Text"
      by auto
    from g [of i] obtain u where "getMediaUrl fetch svc i w =
      (u, w\<lparr>requests := requests w @ [media_request svc i]\<rparr>)" ..
    with i have "\<exists>x. incoming_content fetch svc msg w =
      (x, w\<lparr>requests := requests w @ [media_request svc i]\<rparr>)"
      by (cases "in_type msg") (simp_all add: incoming_content_def)
    then show ?thesis by blast
  qed
qed

lemma processIncomingMessage_no_account:
  "getWhatsappAccount w a = None \<Longrightarrow>
   processIncomingMessage fetch svc a msg w = (Inl (ErrorObj ''WhatsApp account not found''), w)"
  by (simp add: processIncomingMessage_def)

lemma processIncomingMessage_stages:
  assumes "getWhatsappAccount w a = Some acc"
    and "find_or_create_contact acc a (in_from msg) w = (Inr c, w1)"
    and "find_or_create_conversation acc a c w1 = (Inr v, w2)"
  shows "\<exists>m rqs. processIncomingMessage fetch svc a msg w =
     (Inr (c, m, v),
      w2\<lparr>requests := rqs, messages := messages w2 @ [m], next_id := Suc (next_id w2)\<rparr>)"
proof -
  obtain content mediaUrl rqs where
    ic: "incoming_content fetch svc msg w2 = ((content, mediaUrl), w2\<lparr>requests := rqs\<rparr>)"
    using content_stage by (metis surj_pair)
  let ?m = "\<lparr>m_id = next_id w2, m_conversationId = v_id v, m_contactId = c_id c,
             m_whatsappMessageId = Some (in_id msg), m_direction = ''inbound'',
             m_type = in_type msg, m_content = Some content, m_mediaUrl = mediaUrl,
             m_status = ''delivered'', m_isFromBot = False\<rparr>"
  from assms ic have "processIncomingMessage fetch svc a msg w =
     (Inr (c, ?m, v),
      w2\<lparr>requests := rqs, messages := messages w2 @ [?m], next_id := Suc (next_id w2)\<rparr>)"
    by (simp add: processIncomingMessage_def createMessage_append)
  then show ?thesis by blast
qed

lemma find_append_fresh:
  "\<forall>x \<in> set xs. \<not> P x \<Longrightarrow> find P (xs @ [y]) = (if P y then Some y else None)"
  by (induction xs) auto

lemma find_append_other:
  "\<not> P y \<Longrightarrow> find P (xs @ [y]) = find P xs"
  by (induction xs) auto

lemma find_map_other:
  "(\<And>y. f (g y) = f y) \<Longrightarrow> i \<noteq> k \<Longrightarrow>
   find (\<lambda>y. f y = i) (map (\<lambda>y. if f y = k then g y else y) xs) = find (\<lambda>y. f y = i) xs"
  by (induction xs) auto

lemma processIncomingMessage_contact_throws:
  assumes "getWhatsappAccount w a = Some acc"
    and "find_or_create_contact acc a (in_from msg) w = (Inl e, w1)"
  shows "processIncomingMessage fetch svc a msg w = (Inl e, w1)"
  using assms by (simp add: processIncomingMessage_def)

lemma find_map_update:
  "distinct (map f xs) \<Longrightarrow> x \<in> set xs \<Longrightarrow> f (g x) = f x \<Longrightarrow>
   find (\<lambda>y. f y = f x) (map (\<lambda>y. if f y = f x then g y else y) xs) = Some (g x)"
  by (induction xs) (auto simp: image_iff)

text \<open>What a call that returns has done to the counters.\<close>

lemma contact_stage_returns:
  assumes "find_or_create_contact acc a phone w = (Inr c, w1)"
    and "distinct (map c_id (contacts w))"
  shows "c_phone c = phone \<and> c_userId c = a_userId acc \<and>
         conversations w1 = conversations w \<and> next_id w \<le> next_id w1"
proof (cases "getContactByPhone w phone (a_userId acc)")
  case None
  from contact_stage_new [OF None, of a] assms(1) show ?thesis
    by auto
next
  case (Some k)
  then have k: "c_phone k = phone \<and> c_userId k = a_userId acc"
    by (auto simp: getContactByPhone_find dest: find_SomeD)
  show ?thesis
  proof (cases "empty_set w")
    case None
    from contact_stage_old_passes [OF Some None assms(2), of a] assms(1) k show ?thesis
      by auto
  next
    case (Some e)
    from contact_stage_old_throws [OF \<open>getContactByPhone w phone (a_userId acc) = Some k\<close> Some, of a]
      assms(1)
    show ?thesis
      by simp
  qed
qed

lemma conversation_stage_effect:
  assumes d: "distinct (map v_id (conversations w))"
    and b: "list_all (\<lambda>v. v_id v < n) (conversations w)"
    and n: "n \<le> next_id w"
  shows "\<exists>cv w2. find_or_create_conversation acc a c w = (Inr cv, w2) \<and>
     v_contactId cv = c_id c \<and>
     (case getConversation w (v_id cv) of
        None \<Rightarrow> v_unreadCount cv = Some 1
      | Some old \<Rightarrow> v_unreadCount cv = Some (js_plus (unread old) 1)) \<and>
     getConversation w2 (v_id cv) = Some cv \<and>
     (\<forall>i. i \<noteq> v_id cv \<longrightarrow> getConversation w2 i = getConversation w i)"
proof (cases "getConversationByContact w (c_id c)")
  case None
  from b n have fresh: "\<forall>v \<in> set (conversations w). \<not> v_id v = next_id w"
    by (auto simp: list_all_iff)
  then have "getConversation w (next_id w) = None"
    by (simp add: getConversation_find find_None_iff_all)
  with conversation_stage_new [OF None, of acc a] fresh show ?thesis
    by (simp add: getConversation_find find_append_fresh find_append_other)
next
  case (Some v)
  from Some have v: "v \<in> set (conversations w)" and vc: "v_contactId v = c_id c"
    by (auto simp: getConversationByContact_find dest: find_SomeD)
  with d have old: "getConversation w (v_id v) = Some v"
    by (simp add: getConversation_find find_distinct_key)
  from d v have new: "find (\<lambda>y. v_id y = v_id v)
      (map (\<lambda>y. if v_id y = v_id v then y\<lparr>v_unreadCount := Some (js_plus (unread v) 1)\<rparr> else y)
         (conversations w)) = Some (v\<lparr>v_unreadCount := Some (js_plus (unread v) 1)\<rparr>)"
    by (intro find_map_update) simp_all
  have other: "find (\<lambda>y. v_id y = i)
      (map (\<lambda>y. if v_id y = v_id v then y\<lparr>v_unreadCount := Some (js_plus (unread v) 1)\<rparr> else y)
         (conversations w)) = find (\<lambda>y. v_id y = i) (conversations w)" if "i \<noteq> v_id v" for i
    using that by (intro find_map_other) simp_all
  from conversation_stage_old [OF Some d, of acc a] old new other vc show ?thesis
    by (simp add: getConversation_find)
qed

lemma processIncomingMessage_Inr:
  assumes "processIncomingMessage fetch svc a msg w = (Inr (c, m, v), w')"
  shows "\<exists>acc w1 w2. getWhatsappAccount w a = Some acc \<and>
     find_or_create_contact acc a (in_from msg) w = (Inr c, w1) \<and>
     find_or_create_conversation acc a c w1 = (Inr v, w2) \<and>
     conversations w' = conversations w2"
proof (cases "getWhatsappAccount w a")
  case None
  with assms show ?thesis
    by (simp add: processIncomingMessage_no_account)
next
  case (Some acc)
  obtain rc w1 where s1: "find_or_create_contact acc a (in_from msg) w = (rc, w1)"
    by fastforce
  show ?thesis
  proof (cases rc)
    case (Inl e)
    with processIncomingMessage_contact_throws [OF Some, of msg e w1 fetch svc] s1 assms
    show ?thesis by simp
  next
    case (Inr c1)
    obtain rv w2 where s2: "find_or_create_conversation acc a c1 w1 = (rv, w2)"
      by fastforce
    show ?thesis
    proof (cases rv)
      case (Inl e)
      with Some s1 s2 \<open>rc = Inr c1\<close> assms show ?thesis
        by (simp add: processIncomingMessage_def)
    next
      case (Inr v1)
      from processIncomingMessage_stages [OF Some s1 [unfolded \<open>rc = Inr c1\<close>] s2 [unfolded Inr],
          of fetch svc] assms
      have "c1 = c" "v1 = v" "conversations w' = conversations w2"
        by auto
      with Some s1 s2 \<open>rc = Inr c1\<close> Inr show ?thesis
        by simp
    qed
  qed
qed

lemma inbound_counter_when_returned:
  assumes "store_ok w"
    and "processIncomingMessage fetch svc a msg w = (Inr (contact, message, cv), w')"
  shows "c_phone contact = in_from msg \<and> v_contactId cv = c_id contact \<and>
         (case getConversation w (v_id cv) of
            None \<Rightarrow> v_unreadCount cv = Some 1
          | Some old \<Rightarrow> v_unreadCount cv = Some (js_plus (unread old) 1)) \<and>
         getConversation w' (v_id cv) = Some cv \<and>
         (\<forall>i. i \<noteq> v_id cv \<longrightarrow> getConversation w' i = getConversation w i)"
proof -
  from assms(1) have dc: "distinct (map c_id (contacts w))"
    and dv: "distinct (map v_id (conversations w))"
    and bv: "list_all (\<lambda>v. v_id v < next_id w) (conversations w)"
    by (simp_all add: store_ok_def list_all_iff)
  from processIncomingMessage_Inr [OF assms(2)]
  obtain acc w1 w2 where c: "find_or_create_contact acc a (in_from msg) w = (Inr contact, w1)"
    and v: "find_or_create_conversation acc a contact w1 = (Inr cv, w2)"
    and w': "conversations w' = conversations w2"
    by blast
  from contact_stage_returns [OF c dc]
  have ph: "c_phone contact = in_from msg"
    and cv1: "conversations w1 = conversations w" and n1: "next_id w \<le> next_id w1"
    by simp_all
  from dv bv cv1 have dv1: "distinct (map v_id (conversations w1))"
    and bv1: "list_all (\<lambda>v. v_id v < next_id w) (conversations w1)"
    by simp_all
  from conversation_stage_effect [OF dv1 bv1 n1, of acc a contact] v
  have eff: "v_contactId cv = c_id contact"
    "case getConversation w1 (v_id cv) of
        None \<Rightarrow> v_unreadCount cv = Some 1
      | Some old \<Rightarrow> v_unreadCount cv = Some (js_plus (unread old) 1)"
    "getConversation w2 (v_id cv) = Some cv"
    "\<forall>i. i \<noteq> v_id cv \<longrightarrow> getConversation w2 i = getConversation w1 i"
    by auto
  from w' cv1 have "getConversation w' = getConversation w2"
    and "getConversation w1 = getConversation w"
    by (simp_all add: getConversation_find fun_eq_iff)
  with eff ph show ?thesis
    by simp
qed

lemma processOutgoingMessage_conversations:
  "conversations (snd (processOutgoingMessage fetch svc now conversationId contactId content type w))
     = conversations w \<or>
   conversations (snd (processOutgoingMessage fetch svc now conversationId contactId content type w))
     = map (\<lambda>v. if v_id v = conversationId then v\<lparr>v_lastMessageAt := Some now\<rparr> else v)
         (conversations w)"
proof (cases "getContact w contactId")
  case None
  then show ?thesis
    by (simp add: processOutgoingMessage_no_contact)
next
  case (Some contact)
  obtain r where r: "sendTextMessage fetch svc (c_phone contact) content w =
          (Inr r, if validateCredentials svc
                  then w\<lparr>requests := requests w @
                         [send_request svc \<lparr>wm_to = c_phone contact, wm_type = Text,
                                            wm_body = Some content, wm_link = None\<rparr>]\<rparr>
                  else w)"
    using sendTextMessage_returns by blast
  show ?thesis
  proof (cases "success r")
    case False
    from processOutgoingMessage_not_sent [OF Some r False, of now conversationId type]
    show ?thesis by simp
  next
    case True
    from processOutgoingMessage_sent [OF Some r True, of now conversationId type]
    show ?thesis by auto
  qed
qed

lemma outbound_keeps_counters:
  "map v_unreadCount
     (conversations (snd (processOutgoingMessage fetch svc now conversationId contactId
                            content type w))) = map v_unreadCount (conversations w) \<and>
   map (\<lambda>v. v\<lparr>v_lastMessageAt := None\<rparr>)
     (conversations (snd (processOutgoingMessage fetch svc now conversationId contactId
                            content type w))) =
     map (\<lambda>v. v\<lparr>v_lastMessageAt := None\<rparr>) (conversations w)"
proof -
  have upd: "map v_unreadCount (map (\<lambda>v. if v_id v = k then v\<lparr>v_lastMessageAt := t\<rparr> else v) vs)
      = map v_unreadCount vs" for k t and vs :: "conversation list"
    by (induction vs) auto
  have upd': "map (\<lambda>v. v\<lparr>v_lastMessageAt := None\<rparr>)
        (map (\<lambda>v. if v_id v = k then v\<lparr>v_lastMessageAt := t\<rparr> else v) vs)
      = map (\<lambda>v. v\<lparr>v_lastMessageAt := None\<rparr>) vs" for k t and vs :: "conversation list"
    by (induction vs) auto
  from processOutgoingMessage_conversations [of fetch svc now conversationId contactId content type w]
  show ?thesis
    by (auto simp: upd upd')
qed

text \<open>
  C4. An inbound message from a sender that is already a contact does not increase
  the unread counter. The block that finds the contact calls
  \<^verbatim>\<open>storage.updateContact(contact.id, {})\<close>, and the storage method hands the empty
  object to \<^verbatim>\<open>db.update(contacts).set\<close>. When the database layer throws at an update
  that assigns nothing, \<open>processIncomingMessage\<close> throws that error before the
  conversation is looked up and leaves the world, counters included, as it was.
\<close>

theorem inbound_from_known_contact_throws:
  assumes "empty_set w = Some e"
    and "getWhatsappAccount w a = Some acc"
    and "getContactByPhone w (in_from msg) (a_userId acc) = Some c"
  shows "processIncomingMessage fetch svc a msg w = (Inl e, w)"
  using processIncomingMessage_contact_throws [OF assms(2) contact_stage_old_throws [OF assms(3,1)]]
  by simp

text \<open>A message from the stored contact: the call throws ``No values to set'' and the
  counter of the conversation stays at 2.\<close>

theorem inbound_from_known_contact_throws_witness:
  "empty_set busy_world = Some (ErrorObj ''No values to set'') \<and>
   getWhatsappAccount busy_world 3 = Some \<lparr>a_id = 3, a_userId = 1\<rparr> \<and>
   getContactByPhone busy_world (in_from msg_hola) 1 = Some ana_contact \<and>
   getConversationByContact busy_world (c_id ana_contact) = Some ana_conversation \<and>
   v_unreadCount ana_conversation = Some 2 \<and>
   processIncomingMessage unreachable sample_service 3 msg_hola busy_world =
     (Inl (ErrorObj ''No values to set''), busy_world)"
proof -
  have e: "empty_set busy_world = Some (ErrorObj ''No values to set'')"
    by (simp add: busy_world_def sample_world_def)
  have acc: "getWhatsappAccount busy_world 3 = Some \<lparr>a_id = 3, a_userId = 1\<rparr>"
    by (simp add: getWhatsappAccount_find busy_world_def sample_world_def)
  have c: "getContactByPhone busy_world (in_from msg_hola) (a_userId \<lparr>a_id = 3, a_userId = 1\<rparr>) =
      Some ana_contact"
    by (simp add: getContactByPhone_find busy_world_def ana_contact_def msg_hola_def)
  have v: "getConversationByContact busy_world (c_id ana_contact) = Some ana_conversation"
    by (simp add: getConversationByContact_find busy_world_def ana_contact_def ana_conversation_def)
  have n: "v_unreadCount ana_conversation = Some 2"
    by (simp add: ana_conversation_def)
  from inbound_from_known_contact_throws [OF e acc c, of unreachable sample_service] e acc c v n
  show ?thesis
    by simp
qed

text \<open>
  C3. In a world whose tables satisfy \<open>store_ok\<close> and that has no contact for the phone
  number under the account owner, two inbound messages from that phone number are
  processed one after the other (through accounts of that owner). The first creates
  the contact and its conversation. The second finds the contact; it then throws
  when the database layer throws at the update that assigns nothing, and otherwise
  finds the conversation and raises its counter to 2. Either way the store afterwards
  holds exactly one contact with that phone number and owner and exactly one
  conversation of such a contact: the contact table has grown by that contact and
  the conversation table by that conversation. When no owner at all had a contact
  with the phone number, it is also the only contact with that phone number, and its
  conversation the only one of such a contact.
\<close>

theorem two_inbound_one_contact:
  assumes ok: "store_ok w"
    and acc1: "getWhatsappAccount w a1 = Some acc1"
    and acc2: "getWhatsappAccount w a2 = Some acc2"
    and u1: "a_userId acc1 = u" and u2: "a_userId acc2 = u"
    and p1: "in_from msg1 = p" and p2: "in_from msg2 = p"
    and fresh: "getContactByPhone w p u = None"
    and e1: "processIncomingMessage fetch1 svc1 a1 msg1 w = (r1, w1)"
    and e2: "processIncomingMessage fetch2 svc2 a2 msg2 w1 = (r2, w2)"
  shows "\<exists>c m1 v1 v2.
     r1 = Inr (c, m1, v1) \<and>
     (case empty_set w of
        Some e \<Rightarrow> r2 = Inl e \<and> v2 = v1
      | None \<Rightarrow> (\<exists>m2. r2 = Inr (c, m2, v2)) \<and> v_unreadCount v2 = Some 2) \<and>
     filter (\<lambda>x. c_phone x = p \<and> c_userId x = u) (contacts w2) = [c] \<and>
     filter (\<lambda>x. \<exists>k \<in> set (contacts w2). c_id k = v_contactId x \<and> c_phone k = p \<and> c_userId k = u)
       (conversations w2) = [v2] \<and>
     contacts w2 = contacts w @ [c] \<and> conversations w2 = conversations w @ [v2] \<and>
     v_contactId v2 = c_id c \<and>
     ((\<forall>x \<in> set (contacts w). c_phone x \<noteq> p) \<longrightarrow>
        filter (\<lambda>x. c_phone x = p) (contacts w2) = [c] \<and>
        filter (\<lambda>x. \<exists>k \<in> set (contacts w2). c_id k = v_contactId x \<and> c_phone k = p)
          (conversations w2) = [v2])"
proof -
  define n where "n = next_id w"
  define c0 where "c0 = \<lparr>c_id = n, c_userId = u, c_whatsappAccountId = a1, c_name = p, c_phone = p\<rparr>"
  define v0 where "v0 = \<lparr>v_id = Suc n, v_userId = u, v_contactId = n, v_whatsappAccountId = a1,
                         v_unreadCount = Some (1::int), v_lastMessageAt = None\<rparr>"
  define v0' where "v0' = v0\<lparr>v_unreadCount := Some 2\<rparr>"
  from ok have dc: "distinct (map c_id (contacts w))"
    and dv: "distinct (map v_id (conversations w))"
    and bc: "\<forall>c \<in> set (contacts w). c_id c < n"
    and bv: "\<forall>v \<in> set (conversations w). v_id v < n \<and> v_contactId v < n"
    by (simp_all add: store_ok_def list_all_iff n_def)
  from fresh have none: "\<forall>c \<in> set (contacts w). \<not> (c_phone c = p \<and> c_userId c = u)"
    by (simp add: getContactByPhone_find find_None_iff_all)
  \<comment> \<open>the first message creates the contact and the conversation\<close>
  define wa where "wa = w\<lparr>contacts := contacts w @ [c0], next_id := Suc n\<rparr>"
  define wb where "wb = wa\<lparr>conversations := conversations w @ [v0], next_id := Suc (Suc n)\<rparr>"
  from fresh u1 p1 have s1: "find_or_create_contact acc1 a1 (in_from msg1) w = (Inr c0, wa)"
    using contact_stage_new [of w p acc1 a1] by (simp add: c0_def wa_def n_def)
  from bv have "getConversationByContact wa (c_id c0) = None"
    by (auto simp: getConversationByContact_find find_None_iff_all wa_def c0_def)
  from conversation_stage_new [OF this, of acc1 a1] u1
  have s2: "find_or_create_conversation acc1 a1 c0 wa = (Inr v0, wb)"
    by (simp add: wa_def wb_def v0_def c0_def)
  obtain m1 rqs1 where "processIncomingMessage fetch1 svc1 a1 msg1 w =
     (Inr (c0, m1, v0),
      wb\<lparr>requests := rqs1, messages := messages wb @ [m1], next_id := Suc (next_id wb)\<rparr>)"
    using processIncomingMessage_stages [OF acc1 s1 s2] by blast
  with e1 have r1: "r1 = Inr (c0, m1, v0)"
    and w1: "w1 = wb\<lparr>requests := rqs1, messages := messages wb @ [m1], next_id := Suc (next_id wb)\<rparr>"
    by simp_all
  from w1 have cs1: "contacts w1 = contacts w @ [c0]"
    and vs1: "conversations w1 = conversations w @ [v0]"
    and as1: "accounts w1 = accounts w"
    and es1: "empty_set w1 = empty_set w"
    by (simp_all add: wb_def wa_def)
  \<comment> \<open>the second message finds the contact\<close>
  from acc2 as1 have acc2': "getWhatsappAccount w1 a2 = Some acc2"
    by (simp add: getWhatsappAccount_find)
  from none have lk: "getContactByPhone w1 p (a_userId acc2) = Some c0"
    by (simp add: getContactByPhone_find cs1 find_append_fresh u2 c0_def)
  from dc bc have dc1: "distinct (map c_id (contacts w1))"
    by (auto simp: cs1 c0_def)
  define v2 where "v2 = (case empty_set w of Some e \<Rightarrow> v0 | None \<Rightarrow> v0')"
  have second: "(case empty_set w of
        Some e \<Rightarrow> r2 = Inl e \<and> v2 = v0
      | None \<Rightarrow> (\<exists>m2. r2 = Inr (c0, m2, v2)) \<and> v_unreadCount v2 = Some 2) \<and>
      contacts w2 = contacts w @ [c0] \<and> conversations w2 = conversations w @ [v2]"
  proof (cases "empty_set w")
    case (Some e)
    with es1 have "empty_set w1 = Some e"
      by simp
    from contact_stage_old_throws [OF lk this, of a2] p2
    have "find_or_create_contact acc2 a2 (in_from msg2) w1 = (Inl e, w1)"
      by simp
    from processIncomingMessage_contact_throws [OF acc2' this, of fetch2 svc2] e2
    have "r2 = Inl e" "w2 = w1"
      by simp_all
    with Some cs1 vs1 show ?thesis
      by (simp add: v2_def)
  next
    case None
    with es1 have "empty_set w1 = None"
      by simp
    from contact_stage_old_passes [OF lk this dc1, of a2] p2
    have t1: "find_or_create_contact acc2 a2 (in_from msg2) w1 = (Inr c0, w1)"
      by simp
    from bv have "\<forall>v \<in> set (conversations w). \<not> v_contactId v = n"
      by auto
    then have lv: "getConversationByContact w1 (c_id c0) = Some v0"
      by (simp add: getConversationByContact_find vs1 find_append_fresh c0_def v0_def)
    from dv bv have dv1: "distinct (map v_id (conversations w1))"
      by (auto simp: vs1 v0_def)
    have un: "js_plus (unread v0) 1 = 2"
      by (simp add: unread_def v0_def js_plus_exact)
    from bv have keep: "map (\<lambda>x. if v_id x = v_id v0
                                 then x\<lparr>v_unreadCount := Some (js_plus (unread v0) 1)\<rparr> else x)
        (conversations w) = conversations w"
      by (intro map_idI) (auto simp: v0_def)
    define wc where "wc = w1\<lparr>conversations := conversations w @ [v0']\<rparr>"
    from conversation_stage_old [OF lv dv1, of acc2 a2]
    have t2: "find_or_create_conversation acc2 a2 c0 w1 = (Inr v0', wc)"
      by (simp add: vs1 keep un v0'_def wc_def)
    obtain m2 rqs2 where "processIncomingMessage fetch2 svc2 a2 msg2 w1 =
       (Inr (c0, m2, v0'),
        wc\<lparr>requests := rqs2, messages := messages wc @ [m2], next_id := Suc (next_id wc)\<rparr>)"
      using processIncomingMessage_stages [OF acc2' t1 t2] by blast
    with e2 have "r2 = Inr (c0, m2, v0')"
      and "w2 = wc\<lparr>requests := rqs2, messages := messages wc @ [m2], next_id := Suc (next_id wc)\<rparr>"
      by simp_all
    with None cs1 show ?thesis
      by (simp add: v2_def wc_def v0'_def)
  qed
  then have cs2: "contacts w2 = contacts w @ [c0]"
    and vs2: "conversations w2 = conversations w @ [v2]"
    by simp_all
  have v2c: "v_contactId v2 = n" "v_id v2 = Suc n"
    by (simp_all add: v2_def v0'_def v0_def split: option.splits)
  \<comment> \<open>counting\<close>
  from none have f1: "filter (\<lambda>x. c_phone x = p \<and> c_userId x = u) (contacts w2) = [c0]"
    by (simp add: cs2 c0_def)
  from none bv have "filter (\<lambda>x. \<exists>k \<in> set (contacts w @ [c0]).
        c_id k = v_contactId x \<and> c_phone k = p \<and> c_userId k = u) (conversations w) = []"
    by (auto simp: filter_empty_conv c0_def)
  then have f2: "filter (\<lambda>x. \<exists>k \<in> set (contacts w2).
        c_id k = v_contactId x \<and> c_phone k = p \<and> c_userId k = u) (conversations w2) = [v2]"
    by (simp add: cs2 vs2) (simp add: c0_def v2c)
  have f3: "filter (\<lambda>x. c_phone x = p) (contacts w2) = [c0] \<and>
        filter (\<lambda>x. \<exists>k \<in> set (contacts w2). c_id k = v_contactId x \<and> c_phone k = p)
          (conversations w2) = [v2]"
    if alone: "\<forall>x \<in> set (contacts w). c_phone x \<noteq> p"
  proof
    from alone show "filter (\<lambda>x. c_phone x = p) (contacts w2) = [c0]"
      by (simp add: cs2 c0_def)
    from alone bv have "filter (\<lambda>x. \<exists>k \<in> set (contacts w @ [c0]).
        c_id k = v_contactId x \<and> c_phone k = p) (conversations w) = []"
      by (auto simp: filter_empty_conv c0_def)
    then show "filter (\<lambda>x. \<exists>k \<in> set (contacts w2). c_id k = v_contactId x \<and> c_phone k = p)
          (conversations w2) = [v2]"
      by (simp add: cs2 vs2) (simp add: c0_def v2c)
  qed
  have "v_contactId v2 = c_id c0"
    by (simp add: v2c c0_def)
  with r1 second f1 f2 f3 cs2 vs2 show ?thesis
    by blast
qed

text \<open>Two messages from a new phone number leave one contact and one conversation.
  Here the second call throws, so the counter stays at 1.\<close>

theorem two_inbound_one_contact_witness:
  "store_ok sample_world \<and> getContactByPhone sample_world ''5551234'' 1 = None \<and>
   (\<exists>r1 w1 r2 w2.
      processIncomingMessage unreachable sample_service 3 msg_hola sample_world = (r1, w1) \<and>
      processIncomingMessage unreachable sample_service 3 msg_precio w1 = (r2, w2) \<and>
      r2 = Inl (ErrorObj ''No values to set'') \<and>
      map c_phone (contacts w2) = [''5551234''] \<and>
      map v_contactId (conversations w2) = map c_id (contacts w2) \<and>
      map v_unreadCount (conversations w2) = [Some 1])"
proof -
  have ok: "store_ok sample_world"
    by code_simp
  have acc: "getWhatsappAccount sample_world 3 = Some \<lparr>a_id = 3, a_userId = 1\<rparr>"
    by (simp add: getWhatsappAccount_find sample_world_def)
  have u: "a_userId \<lparr>a_id = 3, a_userId = 1\<rparr> = 1"
    by simp
  have p1: "in_from msg_hola = ''5551234''" and p2: "in_from msg_precio = ''5551234''"
    by (simp_all add: msg_hola_def msg_precio_def)
  have fresh: "getContactByPhone sample_world ''5551234'' 1 = None"
    by (simp add: getContactByPhone_find sample_world_def)
  have empty: "contacts sample_world = []" "conversations sample_world = []"
    "empty_set sample_world = Some (ErrorObj ''No values to set'')"
    by (simp_all add: sample_world_def)
  obtain r1 w1 where e1:
    "processIncomingMessage unreachable sample_service 3 msg_hola sample_world = (r1, w1)"
    by fastforce
  obtain r2 w2 where e2:
    "processIncomingMessage unreachable sample_service 3 msg_precio w1 = (r2, w2)"
    by fastforce
  have "case fst (processIncomingMessage unreachable sample_service 3 msg_hola sample_world) of
          Inl e \<Rightarrow> False | Inr (c, m, v) \<Rightarrow> v_unreadCount v = Some 1"
    by code_simp
  with e1 have first: "case r1 of Inl e \<Rightarrow> False | Inr (c, m, v) \<Rightarrow> v_unreadCount v = Some 1"
    by simp
  from two_inbound_one_contact [OF ok acc acc u u p1 p2 fresh e1 e2] empty first
  obtain c v2 where f: "filter (\<lambda>x. c_phone x = ''5551234'' \<and> c_userId x = 1) (contacts w2) = [c]"
    and cs: "contacts w2 = [c]"
    and vs: "conversations w2 = [v2]"
    and r2: "r2 = Inl (ErrorObj ''No values to set'')"
    and vc: "v_contactId v2 = c_id c"
    and un: "v_unreadCount v2 = Some 1"
    by auto
  from f have "c \<in> set (filter (\<lambda>x. c_phone x = ''5551234'' \<and> c_userId x = 1) (contacts w2))"
    by simp
  then have "c_phone c = ''5551234''"
    by simp
  with cs vs un vc r2
  have "r2 = Inl (ErrorObj ''No values to set'') \<and>
      map c_phone (contacts w2) = [''5551234''] \<and>
      map v_contactId (conversations w2) = map c_id (contacts w2) \<and>
      map v_unreadCount (conversations w2) = [Some 1]"
    by simp
  with ok fresh e1 e2 show ?thesis
    by (intro conjI exI [of _ r1] exI [of _ w1] exI [of _ r2] exI [of _ w2]) simp_all
qed

section \<open>Properties of the bot reply\<close>

text \<open>
  C6. When \<open>processBotResponse\<close> completes, it has sent one request to the phone of
  the stored contact, stored one outbound bot message in the given conversation and
  recorded one interaction (its two updates assign a column each and do not throw).
  The text sent, stored and recorded is the generated
  response, followed by the hand-off notice exactly when the lowercased content
  contains an escalation keyword, and the interaction's flag is that same condition.
  The generated response and the recipient do not depend on it.
\<close>

theorem escalation_appends_notice:
  assumes "processBotResponse fetch svc lower clk chatbotId contact message conversation w =
             (Inr True, w')"
  shows "\<exists>chatbot generated recipient botMessage interaction.
     getChatbot w chatbotId = Some chatbot \<and>
     generateResponse lower chatbot (or_else (m_content message) '''') = Some generated \<and>
     getContact w (c_id contact) = Some recipient \<and>
     (let escalate = (\<exists>keyword \<in> set escalationKeywords.
                        str_includes (lower (or_else (m_content message) '''')) keyword);
          reply = (if escalate then generated @ escalation_notice else generated)
      in requests w' = requests w @
           [send_request svc \<lparr>wm_to = c_phone recipient, wm_type = Text, wm_body = Some reply,
                              wm_link = None\<rparr>] \<and>
         length (messages w') = Suc (length (messages w)) \<and>
         last (messages w') = botMessage \<and>
         m_content botMessage = Some reply \<and>
         m_conversationId botMessage = v_id conversation \<and>
         m_contactId botMessage = c_id contact \<and>
         m_direction botMessage = ''outbound'' \<and> m_isFromBot botMessage \<and>
         interactions w' = interactions w @ [interaction] \<and>
         i_wasEscalated interaction = escalate \<and> i_response interaction = reply \<and>
         (reply = generated @ escalation_notice \<longleftrightarrow> escalate))"
proof -
  define content where "content = or_else (m_content message) ''''"
  define escalate where "escalate \<longleftrightarrow>
    (\<exists>keyword \<in> set escalationKeywords. str_includes (lower content) keyword)"
  from assms obtain chatbot where cb: "getChatbot w chatbotId = Some chatbot"
    and active: "b_isActive chatbot"
    by (auto simp: processBotResponse_def split: option.splits if_splits)
  obtain generated where g: "generateResponse lower chatbot content = Some generated"
    and ne: "generated \<noteq> []"
    using generateResponse_Some by blast
  define reply where "reply = (if escalate then generated @ escalation_notice else generated)"
  have esc: "shouldEscalateToHuman lower content chatbot = escalate"
    by (simp add: shouldEscalateToHuman_def Let_def some_def list_ex_iff escalate_def)
  define x where "x = (\<lambda>i. \<lparr>i_id = i, i_chatbotId = chatbotId, i_contactId = c_id contact,
       i_messageId = m_id message, i_trigger = content, i_response = reply,
       i_wasEscalated = escalate, i_responseTime = t_end clk - t_start clk\<rparr>)"
  from assms cb active g ne esc
  obtain bm w1 where out: "processOutgoingMessage fetch svc (t_send clk) (v_id conversation)
        (c_id contact) reply Text w = (Inr bm, w1)"
    and w': "w' = snd (createBotInteraction
                  (w1\<lparr>messages := map (\<lambda>m. if m_id m = m_id bm then m\<lparr>m_isFromBot := True\<rparr> else m)
                                     (messages w1)\<rparr>) x)"
    by (auto simp: processBotResponse_def Let_def truthy_def interpolate_def content_def
        reply_def x_def updateMessage_one split: prod.splits sum.splits if_splits)
  from processOutgoingMessage_Inr [OF out]
  obtain recipient and r :: send_result
    where rc: "getContact w (c_id contact) = Some recipient"
    and bm: "bm = \<lparr>m_id = next_id w, m_conversationId = v_id conversation,
           m_contactId = c_id contact,
           m_whatsappMessageId = messageId r, m_direction = ''outbound'', m_type = Text,
           m_content = Some reply, m_mediaUrl = None, m_status = ''sent'',
           m_isFromBot = False\<rparr>"
    and w1: "w1 = w\<lparr>requests := requests w @
              [send_request svc \<lparr>wm_to = c_phone recipient, wm_type = Text, wm_body = Some reply,
                                 wm_link = None\<rparr>],
             messages := messages w @ [bm], next_id := Suc (next_id w),
             conversations := map (\<lambda>v. if v_id v = v_id conversation
                                        then v\<lparr>v_lastMessageAt := Some (t_send clk)\<rparr> else v)
                                (conversations w)\<rparr>"
    by auto
  let ?bm = "bm\<lparr>m_isFromBot := True\<rparr>"
  let ?x = "x (Suc (next_id w))"
  from w' w1 have rq: "requests w' = requests w @
           [send_request svc \<lparr>wm_to = c_phone recipient, wm_type = Text, wm_body = Some reply,
                              wm_link = None\<rparr>]"
    and ms: "messages w' = map (\<lambda>m. if m_id m = m_id bm then m\<lparr>m_isFromBot := True\<rparr> else m)
                 (messages w @ [bm])"
    and xs: "interactions w' = interactions w @ [?x]"
    by (simp_all add: createBotInteraction_append)
  from ms have len: "length (messages w') = Suc (length (messages w))"
    and lst: "last (messages w') = ?bm"
    by simp_all
  have iff: "(reply = generated @ escalation_notice) = escalate"
    by (simp add: reply_def resp_nonempty)
  have "let escalate' = escalate; reply' = (if escalate' then generated @ escalation_notice else generated)
      in requests w' = requests w @
           [send_request svc \<lparr>wm_to = c_phone recipient, wm_type = Text, wm_body = Some reply',
                              wm_link = None\<rparr>] \<and>
         length (messages w') = Suc (length (messages w)) \<and>
         last (messages w') = ?bm \<and>
         m_content ?bm = Some reply' \<and>
         m_conversationId ?bm = v_id conversation \<and>
         m_contactId ?bm = c_id contact \<and>
         m_direction ?bm = ''outbound'' \<and> m_isFromBot ?bm \<and>
         interactions w' = interactions w @ [?x] \<and>
         i_wasEscalated ?x = escalate' \<and> i_response ?x = reply' \<and>
         (reply' = generated @ escalation_notice \<longleftrightarrow> escalate')"
    using rq len lst xs iff by (simp add: Let_def bm x_def reply_def)
  with cb g rc show ?thesis
    unfolding escalate_def content_def by blast
qed

text \<open>A complaint about the price: the pricing menu is sent with the notice
  appended, and the interaction is flagged.\<close>

theorem escalation_appends_notice_witness:
  "\<exists>w'. processBotResponse accepting sample_service ascii_lower sample_clock 7 ana_contact
           msg_queja ana_conversation busy_world = (Inr True, w') \<and>
         m_content (last (messages w')) = Some (resp_pricing @ escalation_notice) \<and>
         i_wasEscalated (last (interactions w')) \<and>
         map rq_payload (requests w') =
           [Some \<lparr>wm_to = ''5551234'', wm_type = Text,
                  wm_body = Some (resp_pricing @ escalation_notice), wm_link = None\<rparr>]"
proof -
  have "fst (processBotResponse accepting sample_service ascii_lower sample_clock 7 ana_contact
               msg_queja ana_conversation busy_world) = Inr True"
    by code_simp
  then obtain w' where e:
    "processBotResponse accepting sample_service ascii_lower sample_clock 7 ana_contact
       msg_queja ana_conversation busy_world = (Inr True, w')"
    by (metis prod.collapse)
  have tx: "or_else (m_content msg_queja) '''' = ''Tengo una QUEJA sobre el precio''"
    by (simp add: msg_queja_def or_else_def)
  have cb: "getChatbot busy_world 7 = Some acme"
    by (simp add: getChatbot_find busy_world_def sample_world_def acme_def)
  have gen: "generateResponse ascii_lower acme ''Tengo una QUEJA sobre el precio'' = Some resp_pricing"
    by code_simp
  have esc: "\<exists>keyword \<in> set escalationKeywords.
     str_includes (ascii_lower ''Tengo una QUEJA sobre el precio'') keyword"
    by code_simp
  have rc: "getContact busy_world (c_id ana_contact) = Some ana_contact"
    by (simp add: getContact_find busy_world_def ana_contact_def)
  have rq: "requests busy_world = []" "c_phone ana_contact = ''5551234''"
    by (simp_all add: busy_world_def sample_world_def ana_contact_def)
  from escalation_appends_notice [OF e] tx cb gen esc rc rq
  have "m_content (last (messages w')) = Some (resp_pricing @ escalation_notice) \<and>
         i_wasEscalated (last (interactions w')) \<and>
         map rq_payload (requests w') =
           [Some \<lparr>wm_to = ''5551234'', wm_type = Text,
                  wm_body = Some (resp_pricing @ escalation_notice), wm_link = None\<rparr>]"
    by (auto simp: Let_def send_request_def)
  with e show ?thesis
    by (intro exI [of _ w']) simp
qed

section \<open>Properties of the login\<close>

text \<open>
  C7. For a token library that keeps its contract and a password comparison that
  resolves: when the user stored under the email has a password hash that is not
  empty and that the supplied password matches, \<open>loginWithEmail\<close> returns that user
  and a token which \<open>verifyToken\<close> maps back to the user's id at any time before the
  seven days have passed; for every other email and password it returns \<^verbatim>\<open>null\<close>,
  does not throw, and leaves the world as it was.
\<close>

theorem login_token_roundtrip:
  assumes "jwt_contract lib"
    and "\<forall>hash. \<exists>b. verifyPassword password hash = Inr b"
  shows "((\<exists>user hash. getUserByEmail w email = Some user \<and> u_password user = Some hash \<and>
              hash \<noteq> [] \<and> verifyPassword password hash = Inr True) \<longrightarrow>
          (\<exists>user token w'.
              loginWithEmail lib verifyPassword env loginDate signTime email password w =
                (Inr (Some (user, token)), w') \<and>
              getUserByEmail w email = Some user \<and>
              (\<forall>t'. signTime \<le> t' \<and> t' < signTime + seven_days \<longrightarrow>
                    verifyToken lib env t' token = Some (u_id user)))) \<and>
         (\<not> (\<exists>user hash. getUserByEmail w email = Some user \<and> u_password user = Some hash \<and>
              hash \<noteq> [] \<and> verifyPassword password hash = Inr True) \<longrightarrow>
          loginWithEmail lib verifyPassword env loginDate signTime email password w = (Inr None, w))"
proof -
  have rt: "verifyToken lib env t' (generateToken lib env signTime i) = Some i"
    if "signTime \<le> t'" "t' < signTime + seven_days" for t' i
    using assms(1) that by (simp add: jwt_contract_def verifyToken_def generateToken_def)
  show ?thesis
  proof (cases "getUserByEmail w email")
    case None
    then show ?thesis
      by (simp add: loginWithEmail_def)
  next
    case (Some user)
    show ?thesis
    proof (cases "u_password user")
      case None
      with Some show ?thesis
        by (simp add: loginWithEmail_def truthy_def)
    next
      case (Some hash)
      from assms(2) obtain b where b: "verifyPassword password hash = Inr b"
        by blast
      from \<open>getUserByEmail w email = Some user\<close> Some b show ?thesis
        by (auto simp: loginWithEmail_def truthy_def interpolate_def updateUser_one rt)
    qed
  qed
qed

text \<open>The symbolic library keeps the contract; the stored user logs in with the
  right password, and neither a wrong password nor an unknown email does.\<close>

theorem login_token_roundtrip_witness:
  "jwt_contract symbolic_jwt \<and> (\<forall>hash. \<exists>b. sample_bcrypt ''secreto'' hash = Inr b) \<and>
   (\<exists>user token w'.
      loginWithEmail symbolic_jwt sample_bcrypt None 1700000000000 1000 ''ana@example.com''
          ''secreto'' sample_world =
        (Inr (Some (user, token)), w') \<and>
      u_id user = 1 \<and> verifyToken symbolic_jwt None 2000 token = Some 1) \<and>
   loginWithEmail symbolic_jwt sample_bcrypt None 1700000000000 1000 ''ana@example.com'' ''otra''
       sample_world =
     (Inr None, sample_world) \<and>
   loginWithEmail symbolic_jwt sample_bcrypt None 1700000000000 1000 ''eva@example.com''
       ''secreto'' sample_world =
     (Inr None, sample_world)"
proof -
  have c: "jwt_contract symbolic_jwt"
    by (simp add: jwt_contract_def symbolic_jwt_def)
  have r: "\<forall>hash. \<exists>b. sample_bcrypt pw hash = Inr b" for pw
    by (simp add: sample_bcrypt_def)
  have u: "getUserByEmail sample_world ''ana@example.com'' =
      Some \<lparr>u_id = 1, u_email = Some ''ana@example.com'', u_password = Some ''bcrypt:secreto'',
            u_lastLogin = None\<rparr>"
    by (simp add: getUserByEmail_find sample_world_def)
  have n: "getUserByEmail sample_world ''eva@example.com'' = None"
    by (simp add: getUserByEmail_find sample_world_def)
  have d: "(2000::int) < 1000 + seven_days"
    by (simp add: seven_days_def)
  from login_token_roundtrip [where lib = symbolic_jwt and verifyPassword = sample_bcrypt
      and password = "''secreto''" and w = sample_world and email = "''ana@example.com''" and env = None
      and loginDate = 1700000000000 and signTime = 1000, OF c r]
    login_token_roundtrip [where lib = symbolic_jwt and verifyPassword = sample_bcrypt
      and password = "''otra''" and w = sample_world and email = "''ana@example.com''" and env = None
      and loginDate = 1700000000000 and signTime = 1000, OF c r]
    login_token_roundtrip [where lib = symbolic_jwt and verifyPassword = sample_bcrypt
      and password = "''secreto''" and w = sample_world and email = "''eva@example.com''" and env = None
      and loginDate = 1700000000000 and signTime = 1000, OF c r]
    c r [of "''secreto''"] u n d
  show ?thesis
    by (auto simp: sample_bcrypt_def)
qed

end
